theory Spec2Isabelle
  imports Complex_Main "HOL-Library.Word" "HOL-Library.Monad_Syntax"
begin

section \<open>Scene manager of the CS-330 OpenGL scene project\<close>

text \<open>
  A shallow embedding of \<^verbatim>\<open>Source/SceneManager.cpp\<close> and \<^verbatim>\<open>Source/SceneManager.h\<close>.

  \<^item> The class \<^verbatim>\<open>SceneManager\<close> is a record of its data members.
  \<^item> Every call on an external collaborator (the shader manager, OpenGL, the image
    decoder, the mesh library, \<^verbatim>\<open>std::cout\<close>) is appended, in program order, to the
    field \<open>journal\<close>. What the collaborators hold afterwards (the value of a uniform, the
    texture bound to a texture unit, the text printed) is read off the journal.
  \<^item> Undefined behaviour of the C++ (dereferencing a null pointer, indexing
    \<^verbatim>\<open>m_textureIDs[16]\<close> out of range) is the result \<open>None\<close>.
  \<^item> \<^verbatim>\<open>float\<close> is idealised as \<open>real\<close>: a literal \<^verbatim>\<open>0.7f\<close> is the number it
    denotes, and no rounding is modelled.
  \<^item> \<^verbatim>\<open>int\<close> is \<open>int\<close>: the only arithmetic on it is \<^verbatim>\<open>index++\<close> and
    \<^verbatim>\<open>m_loadedTextures++\<close>, and every value that is incremented has passed a bound
    check against 16 or against a vector size, so no wrap-around can happen.
\<close>

subsection \<open>Vectors and matrices of GLM\<close>

type_synonym float = real
type_synonym vec2 = "float \<times> float"
type_synonym vec3 = "float \<times> float \<times> float"
type_synonym vec4 = "float \<times> float \<times> float \<times> float"

text \<open>A \<^verbatim>\<open>glm::mat4\<close> is column-major: four columns, each a \<^verbatim>\<open>vec4\<close>.\<close>

type_synonym mat4 = "vec4 \<times> vec4 \<times> vec4 \<times> vec4"

fun vec4_times :: "vec4 \<Rightarrow> float \<Rightarrow> vec4" where
  "vec4_times (x, y, z, w) c = (x * c, y * c, z * c, w * c)"

fun vec4_plus :: "vec4 \<Rightarrow> vec4 \<Rightarrow> vec4" where
  "vec4_plus (x, y, z, w) (x', y', z', w') = (x + x', y + y', z + z', w + w')"

definition mat4_identity :: mat4 where
  "mat4_identity = ((1, 0, 0, 0), (0, 1, 0, 0), (0, 0, 1, 0), (0, 0, 0, 1))"

text \<open>\<^verbatim>\<open>operator*(mat4, mat4)\<close>: column \<open>j\<close> of the product is the combination of the
  columns of \<open>m1\<close> with the entries of column \<open>j\<close> of \<open>m2\<close>.\<close>

fun mat4_column_times :: "mat4 \<Rightarrow> vec4 \<Rightarrow> vec4" where
  "mat4_column_times (SrcA0, SrcA1, SrcA2, SrcA3) (b0, b1, b2, b3) =
     vec4_plus (vec4_plus (vec4_plus (vec4_times SrcA0 b0) (vec4_times SrcA1 b1))
       (vec4_times SrcA2 b2)) (vec4_times SrcA3 b3)"

fun mat4_times :: "mat4 \<Rightarrow> mat4 \<Rightarrow> mat4" where
  "mat4_times m1 (SrcB0, SrcB1, SrcB2, SrcB3) =
     (mat4_column_times m1 SrcB0, mat4_column_times m1 SrcB1,
      mat4_column_times m1 SrcB2, mat4_column_times m1 SrcB3)"

text \<open>\<^verbatim>\<open>glm::radians\<close> multiplies by GLM's constant for \<open>\<pi> / 180\<close>.\<close>

definition glm_radians :: "float \<Rightarrow> float" where
  "glm_radians degrees = degrees * 0.01745329251994329576923690768489"

text \<open>GLM is a library outside the repository; its functions are modelled after GLM's own
  definitions, over the reals. \<^verbatim>\<open>glm::scale(v)\<close>, \<^verbatim>\<open>glm::translate(v)\<close> and
  \<^verbatim>\<open>glm::rotate(angle, v)\<close> of \<^verbatim>\<open>glm/gtx/transform.hpp\<close> apply the three-argument
  functions of \<^verbatim>\<open>glm/ext/matrix_transform.inl\<close> to the identity matrix.\<close>

fun glm_scale_m :: "mat4 \<Rightarrow> vec3 \<Rightarrow> mat4" where
  "glm_scale_m (m0, m1, m2, m3) (x, y, z) = (vec4_times m0 x, vec4_times m1 y, vec4_times m2 z, m3)"

definition glm_scale :: "vec3 \<Rightarrow> mat4" where
  "glm_scale v = glm_scale_m mat4_identity v"

fun glm_translate_m :: "mat4 \<Rightarrow> vec3 \<Rightarrow> mat4" where
  "glm_translate_m (m0, m1, m2, m3) (x, y, z) =
     (m0, m1, m2,
      vec4_plus (vec4_plus (vec4_plus (vec4_times m0 x) (vec4_times m1 y)) (vec4_times m2 z)) m3)"

definition glm_translate :: "vec3 \<Rightarrow> mat4" where
  "glm_translate v = glm_translate_m mat4_identity v"

fun glm_normalize :: "vec3 \<Rightarrow> vec3" where
  "glm_normalize (x, y, z) =
     (let inversesqrt = 1 / sqrt (x * x + y * y + z * z)
      in (x * inversesqrt, y * inversesqrt, z * inversesqrt))"

fun glm_rotate_m :: "mat4 \<Rightarrow> float \<Rightarrow> vec3 \<Rightarrow> mat4" where
  "glm_rotate_m (m0, m1, m2, m3) angle v =
     (let c = cos angle;
          s = sin angle;
          (axis0, axis1, axis2) = glm_normalize v;
          temp0 = (1 - c) * axis0;
          temp1 = (1 - c) * axis1;
          temp2 = (1 - c) * axis2;
          Rotate00 = c + temp0 * axis0;
          Rotate01 = temp0 * axis1 + s * axis2;
          Rotate02 = temp0 * axis2 - s * axis1;
          Rotate10 = temp1 * axis0 - s * axis2;
          Rotate11 = c + temp1 * axis1;
          Rotate12 = temp1 * axis2 + s * axis0;
          Rotate20 = temp2 * axis0 + s * axis1;
          Rotate21 = temp2 * axis1 - s * axis0;
          Rotate22 = c + temp2 * axis2
      in (vec4_plus (vec4_plus (vec4_times m0 Rotate00) (vec4_times m1 Rotate01)) (vec4_times m2 Rotate02),
          vec4_plus (vec4_plus (vec4_times m0 Rotate10) (vec4_times m1 Rotate11)) (vec4_times m2 Rotate12),
          vec4_plus (vec4_plus (vec4_times m0 Rotate20) (vec4_times m1 Rotate21)) (vec4_times m2 Rotate22),
          m3))"

definition glm_rotate :: "float \<Rightarrow> vec3 \<Rightarrow> mat4" where
  "glm_rotate angle v = glm_rotate_m mat4_identity angle v"

subsection \<open>External collaborators and the journal of calls\<close>

datatype pointer = NULL | NonNull

datatype uniform_value =
    BoolValue bool
  | IntValue int
  | FloatValue float
  | Vec2Value vec2
  | Vec3Value vec3
  | Vec4Value vec4
  | Mat4Value mat4
  | Sampler2DValue int

datatype mesh =
    BoxMesh | PlaneMesh | CylinderMesh | ConeMesh | PrismMesh
  | Pyramid4Mesh | SphereMesh | TaperedCylinderMesh | TorusMesh

datatype GLenum =
    GL_TEXTURE_2D | GL_TEXTURE_WRAP_S | GL_TEXTURE_WRAP_T | GL_REPEAT
  | GL_TEXTURE_MIN_FILTER | GL_TEXTURE_MAG_FILTER | GL_LINEAR
  | GL_RGB8 | GL_RGB | GL_RGBA8 | GL_RGBA | GL_UNSIGNED_BYTE

text \<open>What is streamed into \<^verbatim>\<open>std::cout\<close> by one statement.\<close>

datatype out = Str string | Num int | Endl

datatype call =
    SetUniform string uniform_value
  | StbiSetFlipVerticallyOnLoad bool
  | StbiLoad string
  | StbiImageFree
  | GlGenTextures "32 word"
  | GlBindTexture GLenum "32 word"
  | GlTexParameteri GLenum GLenum GLenum
  | GlTexImage2D GLenum int GLenum int int int GLenum GLenum
  | GlGenerateMipmap GLenum
  | GlActiveTexture int
  | Cout "out list"
  | LoadMesh mesh
  | DrawMesh mesh

text \<open>The answers of the outside world: what \<^verbatim>\<open>stbi_load\<close> decodes from a file
  (\<open>None\<close> is the null pointer; otherwise width, height and channel count), and the
  texture name \<^verbatim>\<open>glGenTextures\<close> hands out after a given history of calls.\<close>

record env =
  stbi_load_result :: "string \<Rightarrow> (int \<times> int \<times> int) option"
  glGenTextures_result :: "call list \<Rightarrow> 32 word"

subsection \<open>The class\<close>

record TEXTURE_INFO =
  tag :: string
  ID :: "32 word"

record OBJECT_MATERIAL =
  ambientStrength :: float
  ambientColor :: vec3
  diffuseColor :: vec3
  specularColor :: vec3
  shininess :: float
  tag :: string

record SceneManager =
  lightPositions :: "nat \<Rightarrow> vec3"
  m_pShaderManager :: pointer
  m_basicMeshes :: pointer
  m_loadedTextures :: int
  m_textureIDs :: "nat \<Rightarrow> TEXTURE_INFO"
  m_objectMaterials :: "OBJECT_MATERIAL list"
  journal :: "call list"

definition g_ModelName :: string where "g_ModelName = ''model''"
definition g_ColorValueName :: string where "g_ColorValueName = ''objectColor''"
definition g_TextureValueName :: string where "g_TextureValueName = ''objectTexture''"
definition g_UseTextureName :: string where "g_UseTextureName = ''bUseTexture''"
definition g_UseLightingName :: string where "g_UseLightingName = ''bUseLighting''"

definition GL_TEXTURE0 :: int where "GL_TEXTURE0 = 0x84C0"

definition emit :: "call \<Rightarrow> SceneManager \<Rightarrow> SceneManager" where
  "emit c s = s\<lparr>journal := journal s @ [c]\<rparr>"

text \<open>Modelled from the spec: the shader manager's named-uniform setters (the class
  \<^verbatim>\<open>ShaderManager\<close> is not part of the sources at hand). Each setter is called through
  \<^verbatim>\<open>m_pShaderManager->\<close>, so it has no defined result when that pointer is null;
  otherwise the call is journalled with the uniform's name and the value written.\<close>

definition shader_call :: "string \<Rightarrow> uniform_value \<Rightarrow> SceneManager \<Rightarrow> SceneManager option" where
  "shader_call name v s =
     (if m_pShaderManager s = NULL then None else Some (emit (SetUniform name v) s))"

definition setBoolValue :: "string \<Rightarrow> bool \<Rightarrow> SceneManager \<Rightarrow> SceneManager option" where
  "setBoolValue name v = shader_call name (BoolValue v)"

definition setIntValue :: "string \<Rightarrow> int \<Rightarrow> SceneManager \<Rightarrow> SceneManager option" where
  "setIntValue name v = shader_call name (IntValue v)"

definition setFloatValue :: "string \<Rightarrow> float \<Rightarrow> SceneManager \<Rightarrow> SceneManager option" where
  "setFloatValue name v = shader_call name (FloatValue v)"

definition setVec2Value :: "string \<Rightarrow> vec2 \<Rightarrow> SceneManager \<Rightarrow> SceneManager option" where
  "setVec2Value name v = shader_call name (Vec2Value v)"

definition setVec3Value :: "string \<Rightarrow> vec3 \<Rightarrow> SceneManager \<Rightarrow> SceneManager option" where
  "setVec3Value name v = shader_call name (Vec3Value v)"

definition setVec4Value :: "string \<Rightarrow> vec4 \<Rightarrow> SceneManager \<Rightarrow> SceneManager option" where
  "setVec4Value name v = shader_call name (Vec4Value v)"

definition setMat4Value :: "string \<Rightarrow> mat4 \<Rightarrow> SceneManager \<Rightarrow> SceneManager option" where
  "setMat4Value name v = shader_call name (Mat4Value v)"

definition setSampler2DValue :: "string \<Rightarrow> int \<Rightarrow> SceneManager \<Rightarrow> SceneManager option" where
  "setSampler2DValue name v = shader_call name (Sampler2DValue v)"

text \<open>Modelled from the spec: the uniform store of the shader program. A uniform holds
  the value of the latest setter call on its name, and nothing before the first one.\<close>

definition uniform_step :: "(string \<rightharpoonup> uniform_value) \<Rightarrow> call \<Rightarrow> (string \<rightharpoonup> uniform_value)" where
  "uniform_step m c = (case c of SetUniform name v \<Rightarrow> m(name \<mapsto> v) | _ \<Rightarrow> m)"

definition uniforms :: "call list \<Rightarrow> (string \<rightharpoonup> uniform_value)" where
  "uniforms cs = foldl uniform_step Map.empty cs"

text \<open>The text on standard output: the \<^verbatim>\<open>std::cout\<close> statements, in order.\<close>

definition printed :: "call list \<Rightarrow> out list list" where
  "printed cs = concat (map (\<lambda>c. case c of Cout line \<Rightarrow> [line] | _ \<Rightarrow> []) cs)"

text \<open>The constructor stores the shader manager and allocates the mesh object. The
  material vector and the tag strings are default-constructed (empty); the members
  \<^verbatim>\<open>m_loadedTextures\<close>, the texture IDs and \<^verbatim>\<open>lightPositions\<close> are not initialised, so
  they keep whatever the storage \<open>raw\<close> held.\<close>

definition SceneManager_ctor :: "pointer \<Rightarrow> SceneManager \<Rightarrow> SceneManager" where
  "SceneManager_ctor pShaderManager raw =
     raw\<lparr>m_pShaderManager := pShaderManager,
         m_basicMeshes := NonNull,
         m_textureIDs := (\<lambda>i. (m_textureIDs raw i)\<lparr>TEXTURE_INFO.tag := ''''\<rparr>),
         m_objectMaterials := []\<rparr>"

subsection \<open>Material lookup\<close>

text \<open>\<^verbatim>\<open>FindMaterial\<close>: the while loop over \<^verbatim>\<open>index\<close> and \<^verbatim>\<open>bFound\<close>, filling the
  reference parameter \<^verbatim>\<open>material\<close>. The function returns \<^verbatim>\<open>true\<close> whenever the vector is
  not empty, whether or not the loop found the tag.\<close>

function FindMaterial_loop ::
  "OBJECT_MATERIAL list \<Rightarrow> string \<Rightarrow> int \<Rightarrow> bool \<Rightarrow> OBJECT_MATERIAL \<Rightarrow> OBJECT_MATERIAL" where
  "FindMaterial_loop ms tg index bFound material =
     (if index < int (length ms) \<and> bFound = False then
        (if OBJECT_MATERIAL.tag (ms ! nat index) = tg then
           FindMaterial_loop ms tg index True
             (material\<lparr>ambientColor := ambientColor (ms ! nat index),
                       ambientStrength := ambientStrength (ms ! nat index),
                       diffuseColor := diffuseColor (ms ! nat index),
                       specularColor := specularColor (ms ! nat index),
                       shininess := shininess (ms ! nat index)\<rparr>)
         else FindMaterial_loop ms tg (index + 1) bFound material)
      else material)"
  by pat_completeness auto
termination
  by (relation "measure (\<lambda>(ms, tg, index, bFound, material).
        if bFound then 0 else 1 + nat (int (length ms) - index))") auto

declare FindMaterial_loop.simps [simp del]

definition FindMaterial :: "SceneManager \<Rightarrow> string \<Rightarrow> OBJECT_MATERIAL \<Rightarrow> bool \<times> OBJECT_MATERIAL" where
  "FindMaterial s tg material =
     (if length (m_objectMaterials s) = 0 then (False, material)
      else (True, FindMaterial_loop (m_objectMaterials s) tg 0 False material))"

subsection \<open>The shader setters\<close>

definition SetShaderColor ::
  "float \<Rightarrow> float \<Rightarrow> float \<Rightarrow> float \<Rightarrow> SceneManager \<Rightarrow> SceneManager option" where
  "SetShaderColor redColorValue greenColorValue blueColorValue alphaValue s =
     (let currentColor = (redColorValue, greenColorValue, blueColorValue, alphaValue)
      in if NULL \<noteq> m_pShaderManager s then do {
           s \<leftarrow> setIntValue g_UseTextureName 0 s;
           s \<leftarrow> setVec4Value g_ColorValueName currentColor s;
           Some s }
         else Some s)"

definition SetTextureUVScale :: "float \<Rightarrow> float \<Rightarrow> SceneManager \<Rightarrow> SceneManager option" where
  "SetTextureUVScale u v s =
     (if NULL \<noteq> m_pShaderManager s then setVec2Value ''UVscale'' (u, v) s else Some s)"

text \<open>\<^verbatim>\<open>SetShaderMaterial\<close> declares \<^verbatim>\<open>OBJECT_MATERIAL material;\<close> without initialising
  its numeric fields. The parameter \<open>uninitialised\<close> stands for what that storage holds
  when the call is made. The shader manager is used without a null check.\<close>

definition SetShaderMaterial ::
  "OBJECT_MATERIAL \<Rightarrow> string \<Rightarrow> SceneManager \<Rightarrow> SceneManager option" where
  "SetShaderMaterial uninitialised materialTag s =
     (if length (m_objectMaterials s) > 0 then
        (let (bReturn, material) = FindMaterial s materialTag uninitialised
         in if bReturn = True then do {
              s \<leftarrow> setVec3Value ''material.ambientColor'' (ambientColor material) s;
              s \<leftarrow> setFloatValue ''material.ambientStrength'' (ambientStrength material) s;
              s \<leftarrow> setVec3Value ''material.diffuseColor'' (diffuseColor material) s;
              s \<leftarrow> setVec3Value ''material.specularColor'' (specularColor material) s;
              s \<leftarrow> setFloatValue ''material.shininess'' (shininess material) s;
              Some s }
            else Some s)
      else Some s)"

subsection \<open>The material catalogue\<close>

definition push_back_material :: "OBJECT_MATERIAL \<Rightarrow> SceneManager \<Rightarrow> SceneManager" where
  "push_back_material m s = s\<lparr>m_objectMaterials := m_objectMaterials s @ [m]\<rparr>"

definition DefineObjectMaterials :: "SceneManager \<Rightarrow> SceneManager" where
  "DefineObjectMaterials s =
     (let shinyMaterial = \<lparr>ambientStrength = 0.7, ambientColor = (0.3, 0.3, 0.3),
            diffuseColor = (0.8, 0.7, 0.2), specularColor = (0.5, 0.5, 0.5),
            shininess = 50.0, tag = ''shiny''\<rparr>;
          s = push_back_material shinyMaterial s;
          shinyMaterial = \<lparr>ambientStrength = 0.5, ambientColor = (0.3, 0.3, 0.3),
            diffuseColor = (0.8, 0.7, 0.2), specularColor = (0.5, 0.5, 0.5),
            shininess = 25.0, tag = ''shinyish''\<rparr>;
          s = push_back_material shinyMaterial s;
          porcelainMaterial = \<lparr>ambientStrength = 0.5, ambientColor = (0.3, 0.3, 0.3),
            diffuseColor = (0.8, 0.7, 0.2), specularColor = (0.5, 0.5, 0.5),
            shininess = 16.0, tag = ''porcelaine''\<rparr>;
          s = push_back_material porcelainMaterial s;
          dullMaterial = \<lparr>ambientStrength = 0.6, ambientColor = (0.3, 0.3, 0.3),
            diffuseColor = (0.8, 0.7, 0.2), specularColor = (0.5, 0.5, 0.5),
            shininess = 1.0, tag = ''dull''\<rparr>;
          s = push_back_material dullMaterial s;
          voidMaterial = \<lparr>ambientStrength = 0.0, ambientColor = (0.0, 0.0, 0.0),
            diffuseColor = (0.0, 0.0, 0.0), specularColor = (0.0, 0.0, 0.0),
            shininess = 0.0, tag = ''void''\<rparr>;
          s = push_back_material voidMaterial s
      in s)"

subsection \<open>The texture registry\<close>

text \<open>The array \<^verbatim>\<open>TEXTURE_INFO m_textureIDs[16]\<close>: an index outside \<open>0..15\<close> is
  undefined behaviour.\<close>

definition texture_at :: "SceneManager \<Rightarrow> int \<Rightarrow> TEXTURE_INFO option" where
  "texture_at s i = (if 0 \<le> i \<and> i < 16 then Some (m_textureIDs s (nat i)) else None)"

definition stbi_load :: "env \<Rightarrow> string \<Rightarrow> SceneManager \<Rightarrow> (int \<times> int \<times> int) option \<times> SceneManager" where
  "stbi_load E filename s = (stbi_load_result E filename, emit (StbiLoad filename) s)"

definition glGenTextures :: "env \<Rightarrow> SceneManager \<Rightarrow> 32 word \<times> SceneManager" where
  "glGenTextures E s =
     (let name = glGenTextures_result E (journal s) in (name, emit (GlGenTextures name) s))"

text \<open>The statements of \<^verbatim>\<open>CreateGLTexture\<close> after the pixel upload: mipmaps, release of
  the image, unbinding, and the registration in \<^verbatim>\<open>m_textureIDs[m_loadedTextures]\<close>.\<close>

definition CreateGLTexture_register ::
  "32 word \<Rightarrow> string \<Rightarrow> SceneManager \<Rightarrow> (bool \<times> SceneManager) option" where
  "CreateGLTexture_register textureID tg s =
     (let s = emit (GlGenerateMipmap GL_TEXTURE_2D) s;
          s = emit StbiImageFree s;
          s = emit (GlBindTexture GL_TEXTURE_2D 0) s
      in if 0 \<le> m_loadedTextures s \<and> m_loadedTextures s < 16 then
           (let n = nat (m_loadedTextures s);
                s = s\<lparr>m_textureIDs := (m_textureIDs s)(n := (m_textureIDs s n)\<lparr>ID := textureID\<rparr>)\<rparr>;
                s = s\<lparr>m_textureIDs := (m_textureIDs s)(n := (m_textureIDs s n)\<lparr>TEXTURE_INFO.tag := tg\<rparr>)\<rparr>;
                s = s\<lparr>m_loadedTextures := m_loadedTextures s + 1\<rparr>
            in Some (True, s))
         else None)"

definition CreateGLTexture ::
  "env \<Rightarrow> string \<Rightarrow> string \<Rightarrow> SceneManager \<Rightarrow> (bool \<times> SceneManager) option" where
  "CreateGLTexture E filename tg s =
     (let s = emit (StbiSetFlipVerticallyOnLoad True) s;
          (image, s) = stbi_load E filename s
      in case image of
           Some (width, height, colorChannels) \<Rightarrow>
             (let s = emit (Cout [Str ''Successfully loaded image:'', Str filename,
                        Str '', width:'', Num width, Str '', height:'', Num height,
                        Str '', channels:'', Num colorChannels, Endl]) s;
                  (textureID, s) = glGenTextures E s;
                  s = emit (GlBindTexture GL_TEXTURE_2D textureID) s;
                  s = emit (GlTexParameteri GL_TEXTURE_2D GL_TEXTURE_WRAP_S GL_REPEAT) s;
                  s = emit (GlTexParameteri GL_TEXTURE_2D GL_TEXTURE_WRAP_T GL_REPEAT) s;
                  s = emit (GlTexParameteri GL_TEXTURE_2D GL_TEXTURE_MIN_FILTER GL_LINEAR) s;
                  s = emit (GlTexParameteri GL_TEXTURE_2D GL_TEXTURE_MAG_FILTER GL_LINEAR) s
              in if colorChannels = 3 then
                   CreateGLTexture_register textureID tg
                     (emit (GlTexImage2D GL_TEXTURE_2D 0 GL_RGB8 width height 0 GL_RGB GL_UNSIGNED_BYTE) s)
                 else if colorChannels = 4 then
                   CreateGLTexture_register textureID tg
                     (emit (GlTexImage2D GL_TEXTURE_2D 0 GL_RGBA8 width height 0 GL_RGBA GL_UNSIGNED_BYTE) s)
                 else
                   Some (False, emit (Cout [Str ''Not implemented to handle image with '',
                                  Num colorChannels, Str '' channels'', Endl]) s))
         | None \<Rightarrow>
             Some (False, emit (Cout [Str ''Could not load image:'', Str filename, Endl]) s))"

function BindGLTextures_loop :: "int \<Rightarrow> SceneManager \<Rightarrow> SceneManager option" where
  "BindGLTextures_loop i s =
     (if i < m_loadedTextures s then
        (let s = emit (GlActiveTexture (GL_TEXTURE0 + i)) s
         in case texture_at s i of
              None \<Rightarrow> None
            | Some info \<Rightarrow> BindGLTextures_loop (i + 1) (emit (GlBindTexture GL_TEXTURE_2D (ID info)) s))
      else Some s)"
  by pat_completeness auto
termination
  by (relation "measure (\<lambda>(i, s). nat (m_loadedTextures s - i))") (auto simp: emit_def)

declare BindGLTextures_loop.simps [simp del]

definition BindGLTextures :: "SceneManager \<Rightarrow> SceneManager option" where
  "BindGLTextures s = BindGLTextures_loop 0 s"

text \<open>\<^verbatim>\<open>FindTextureSlot\<close>: the while loop over \<^verbatim>\<open>textureSlot\<close>, \<^verbatim>\<open>index\<close> and
  \<^verbatim>\<open>bFound\<close>; the value returned is \<^verbatim>\<open>textureSlot\<close>.\<close>

function FindTextureSlot_loop ::
  "SceneManager \<Rightarrow> string \<Rightarrow> int \<Rightarrow> int \<Rightarrow> bool \<Rightarrow> int option" where
  "FindTextureSlot_loop s tg textureSlot index bFound =
     (if index < m_loadedTextures s \<and> bFound = False then
        (case texture_at s index of
           None \<Rightarrow> None
         | Some info \<Rightarrow>
             if TEXTURE_INFO.tag info = tg then FindTextureSlot_loop s tg index index True
             else FindTextureSlot_loop s tg textureSlot (index + 1) bFound)
      else Some textureSlot)"
  by pat_completeness auto
termination
  by (relation "measure (\<lambda>(s, tg, textureSlot, index, bFound).
        if bFound then 0 else 1 + nat (m_loadedTextures s - index))") auto

declare FindTextureSlot_loop.simps [simp del]

definition FindTextureSlot :: "SceneManager \<Rightarrow> string \<Rightarrow> int option" where
  "FindTextureSlot s tg = FindTextureSlot_loop s tg (-1) 0 False"

definition SetShaderTexture :: "string \<Rightarrow> SceneManager \<Rightarrow> SceneManager option" where
  "SetShaderTexture textureTag s =
     (if NULL \<noteq> m_pShaderManager s then do {
        s \<leftarrow> setIntValue g_UseTextureName 1 s;
        textureID \<leftarrow> FindTextureSlot s textureTag;
        s \<leftarrow> setSampler2DValue g_TextureValueName textureID s;
        Some s }
      else Some s)"

text \<open>Modelled from OpenGL's binding rule: \<^verbatim>\<open>glActiveTexture\<close> selects a texture unit
  (unit 0 at the start), and \<^verbatim>\<open>glBindTexture\<close> binds a texture name to the selected unit
  (every unit holds the name 0 at the start). The pair is the selected unit and the
  name bound to each unit.\<close>

definition texture_step :: "nat \<times> (nat \<Rightarrow> 32 word) \<Rightarrow> call \<Rightarrow> nat \<times> (nat \<Rightarrow> 32 word)" where
  "texture_step g c =
     (case c of
        GlActiveTexture u \<Rightarrow> (nat (u - GL_TEXTURE0), snd g)
      | GlBindTexture target name \<Rightarrow> (fst g, (snd g)(fst g := name))
      | _ \<Rightarrow> g)"

definition texture_units :: "call list \<Rightarrow> nat \<times> (nat \<Rightarrow> 32 word)" where
  "texture_units cs = foldl texture_step (0, \<lambda>u. 0) cs"

subsection \<open>The model matrix\<close>

definition SetTransformations ::
  "vec3 \<Rightarrow> float \<Rightarrow> float \<Rightarrow> float \<Rightarrow> vec3 \<Rightarrow> SceneManager \<Rightarrow> SceneManager option" where
  "SetTransformations scaleXYZ XrotationDegrees YrotationDegrees ZrotationDegrees positionXYZ s =
     (let scale = glm_scale scaleXYZ;
          rotationX = glm_rotate (glm_radians XrotationDegrees) (1.0, 0.0, 0.0);
          rotationY = glm_rotate (glm_radians YrotationDegrees) (0.0, 1.0, 0.0);
          rotationZ = glm_rotate (glm_radians ZrotationDegrees) (0.0, 0.0, 1.0);
          translation = glm_translate positionXYZ;
          modelView = mat4_times (mat4_times (mat4_times (mat4_times translation rotationX)
                        rotationY) rotationZ) scale
      in if NULL \<noteq> m_pShaderManager s then setMat4Value g_ModelName modelView s else Some s)"

subsection \<open>The scene\<close>

text \<open>Modelled from the spec: the mesh capability (the class \<^verbatim>\<open>ShapeMeshes\<close> is not part
  of the sources at hand), one entry point per primitive kind to prepare its geometry and
  one to draw it. Each is called through \<^verbatim>\<open>m_basicMeshes->\<close>.\<close>

definition mesh_call :: "call \<Rightarrow> SceneManager \<Rightarrow> SceneManager option" where
  "mesh_call c s = (if m_basicMeshes s = NULL then None else Some (emit c s))"

definition LoadBoxMesh :: "SceneManager \<Rightarrow> SceneManager option" where
  "LoadBoxMesh = mesh_call (LoadMesh BoxMesh)"

definition LoadPlaneMesh :: "SceneManager \<Rightarrow> SceneManager option" where
  "LoadPlaneMesh = mesh_call (LoadMesh PlaneMesh)"

definition LoadCylinderMesh :: "SceneManager \<Rightarrow> SceneManager option" where
  "LoadCylinderMesh = mesh_call (LoadMesh CylinderMesh)"

definition LoadConeMesh :: "SceneManager \<Rightarrow> SceneManager option" where
  "LoadConeMesh = mesh_call (LoadMesh ConeMesh)"

definition LoadPrismMesh :: "SceneManager \<Rightarrow> SceneManager option" where
  "LoadPrismMesh = mesh_call (LoadMesh PrismMesh)"

definition LoadPyramid4Mesh :: "SceneManager \<Rightarrow> SceneManager option" where
  "LoadPyramid4Mesh = mesh_call (LoadMesh Pyramid4Mesh)"

definition LoadSphereMesh :: "SceneManager \<Rightarrow> SceneManager option" where
  "LoadSphereMesh = mesh_call (LoadMesh SphereMesh)"

definition LoadTaperedCylinderMesh :: "SceneManager \<Rightarrow> SceneManager option" where
  "LoadTaperedCylinderMesh = mesh_call (LoadMesh TaperedCylinderMesh)"

definition LoadTorusMesh :: "SceneManager \<Rightarrow> SceneManager option" where
  "LoadTorusMesh = mesh_call (LoadMesh TorusMesh)"

definition DrawBoxMesh :: "SceneManager \<Rightarrow> SceneManager option" where
  "DrawBoxMesh = mesh_call (DrawMesh BoxMesh)"

definition DrawPlaneMesh :: "SceneManager \<Rightarrow> SceneManager option" where
  "DrawPlaneMesh = mesh_call (DrawMesh PlaneMesh)"

definition DrawCylinderMesh :: "SceneManager \<Rightarrow> SceneManager option" where
  "DrawCylinderMesh = mesh_call (DrawMesh CylinderMesh)"

definition DrawPrismMesh :: "SceneManager \<Rightarrow> SceneManager option" where
  "DrawPrismMesh = mesh_call (DrawMesh PrismMesh)"

definition DrawSphereMesh :: "SceneManager \<Rightarrow> SceneManager option" where
  "DrawSphereMesh = mesh_call (DrawMesh SphereMesh)"

definition DrawTaperedCylinderMesh :: "SceneManager \<Rightarrow> SceneManager option" where
  "DrawTaperedCylinderMesh = mesh_call (DrawMesh TaperedCylinderMesh)"

definition DrawTorusMesh :: "SceneManager \<Rightarrow> SceneManager option" where
  "DrawTorusMesh = mesh_call (DrawMesh TorusMesh)"

definition LoadSceneTextures :: "env \<Rightarrow> SceneManager \<Rightarrow> SceneManager option" where
  "LoadSceneTextures E s = do {
     (bReturn, s) \<leftarrow> CreateGLTexture E ''../../Utilities/textures/metal_table.jpg'' ''metal_table'' s;
     (bReturn, s) \<leftarrow> CreateGLTexture E ''../../Utilities/textures/blue_vase.jpg'' ''blue_vase'' s;
     (bReturn, s) \<leftarrow> CreateGLTexture E ''../../Utilities/textures/blue_vase3.jpg'' ''blue_vase3'' s;
     (bReturn, s) \<leftarrow> CreateGLTexture E ''../../Utilities/textures/tiger_wood.jpg'' ''tiger_wood'' s;
     (bReturn, s) \<leftarrow> CreateGLTexture E ''../../Utilities/textures/pink_matte.jpg'' ''pink_matte'' s;
     (bReturn, s) \<leftarrow> CreateGLTexture E ''../../Utilities/textures/pink_matte2.jpg'' ''pink_matte2'' s;
     (bReturn, s) \<leftarrow> CreateGLTexture E ''../../Utilities/textures/ruby4.jpg'' ''ruby4'' s;
     (bReturn, s) \<leftarrow> CreateGLTexture E ''../../Utilities/textures/ruby6.jpg'' ''ruby6'' s;
     (bReturn, s) \<leftarrow> CreateGLTexture E ''../../Utilities/textures/ruby8.jpg'' ''ruby8'' s;
     (bReturn, s) \<leftarrow> CreateGLTexture E ''../../Utilities/textures/ruby9.jpg'' ''ruby9'' s;
     (bReturn, s) \<leftarrow> CreateGLTexture E ''../../Utilities/textures/trash1.jpg'' ''trash1'' s;
     (bReturn, s) \<leftarrow> CreateGLTexture E ''../../Utilities/textures/can_skin.jpg'' ''can_skin'' s;
     (bReturn, s) \<leftarrow> CreateGLTexture E ''../../Utilities/textures/matte_rubber.jpg'' ''matte_rubber'' s;
     (bReturn, s) \<leftarrow> CreateGLTexture E ''../../Utilities/textures/porcelain_vase.jpg'' ''porcelain_vase'' s;
     BindGLTextures s }"

definition SetupSceneLights :: "SceneManager \<Rightarrow> SceneManager option" where
  "SetupSceneLights s = do {
     s \<leftarrow> setBoolValue g_UseLightingName True s;
     let s = s\<lparr>lightPositions := (lightPositions s)(0 := (- 100.0, 40.0, 50.0))\<rparr>;
     let s = s\<lparr>lightPositions := (lightPositions s)(1 := (- 150.0, 40.0, - 25.0))\<rparr>;
     let s = s\<lparr>lightPositions := (lightPositions s)(2 := (100.0, 20.0, 10.0))\<rparr>;
     let s = s\<lparr>lightPositions := (lightPositions s)(3 := (20.0, 50.0, - 100.0))\<rparr>;
     s \<leftarrow> setVec3Value ''lightSources[0].position'' (lightPositions s 0) s;
     s \<leftarrow> setVec3Value ''lightSources[0].ambientColor'' (0.0, 0.0, 0.0) s;
     s \<leftarrow> setVec3Value ''lightSources[0].diffuseColor'' (0.0, 0.0, 0.0) s;
     s \<leftarrow> setVec3Value ''lightSources[0].specularColor'' (0.0, 0.0, 0.0) s;
     s \<leftarrow> setFloatValue ''lightSources[0].focalStrength'' 50.0 s;
     s \<leftarrow> setFloatValue ''lightSources[0].specularIntensity'' 0.4 s;
     s \<leftarrow> setVec3Value ''lightSources[1].position'' (lightPositions s 1) s;
     s \<leftarrow> setVec3Value ''lightSources[1].ambientColor'' (0.0, 0.0, 0.1) s;
     s \<leftarrow> setVec3Value ''lightSources[1].diffuseColor'' (0.0, 0.0, 0.0) s;
     s \<leftarrow> setVec3Value ''lightSources[1].specularColor'' (0.0, 0.0, 0.0) s;
     s \<leftarrow> setFloatValue ''lightSources[1].focalStrength'' 30.0 s;
     s \<leftarrow> setFloatValue ''lightSources[1].specularIntensity'' 0.1 s;
     s \<leftarrow> setVec3Value ''lightSources[2].position'' (lightPositions s 2) s;
     s \<leftarrow> setVec3Value ''lightSources[2].ambientColor'' (0.0, 0.0, 0.3) s;
     s \<leftarrow> setVec3Value ''lightSources[2].diffuseColor'' (0.0, 0.0, 0.2) s;
     s \<leftarrow> setVec3Value ''lightSources[2].specularColor'' (0.0, 0.0, 2.0) s;
     s \<leftarrow> setFloatValue ''lightSources[2].focalStrength'' 100.0 s;
     s \<leftarrow> setFloatValue ''lightSources[2].specularIntensity'' 1.0 s;
     s \<leftarrow> setVec3Value ''lightSources[3].position'' (lightPositions s 3) s;
     s \<leftarrow> setVec3Value ''lightSources[3].ambientColor'' (0.0, 0.0, 0.0) s;
     s \<leftarrow> setVec3Value ''lightSources[3].diffuseColor'' (0.0, 0.0, 0.0) s;
     s \<leftarrow> setVec3Value ''lightSources[3].specularColor'' (0.0, 0.0, 0.0) s;
     s \<leftarrow> setFloatValue ''lightSources[3].focalStrength'' 12.0 s;
     s \<leftarrow> setFloatValue ''lightSources[3].specularIntensity'' 0.2 s;
     s \<leftarrow> setVec3Value ''lightSources[4].position'' (- 30.0, 40.0, 30.0) s;
     s \<leftarrow> setVec3Value ''lightSources[4].ambientColor'' (0.0, 0.0, 0.0) s;
     s \<leftarrow> setVec3Value ''lightSources[4].diffuseColor'' (0.0, 0.0, 0.0) s;
     s \<leftarrow> setVec3Value ''lightSources[4].specularColor'' (0.3, 0.3, 0.3) s;
     s \<leftarrow> setFloatValue ''lightSources[4].focalStrength'' 30.0 s;
     s \<leftarrow> setFloatValue ''lightSources[4].specularIntensity'' 0.3 s;
     Some s }"

definition PrepareScene :: "env \<Rightarrow> SceneManager \<Rightarrow> SceneManager option" where
  "PrepareScene E s = do {
     s \<leftarrow> SetupSceneLights s;
     let s = DefineObjectMaterials s;
     s \<leftarrow> LoadSceneTextures E s;
     s \<leftarrow> LoadBoxMesh s;
     s \<leftarrow> LoadPlaneMesh s;
     s \<leftarrow> LoadCylinderMesh s;
     s \<leftarrow> LoadConeMesh s;
     s \<leftarrow> LoadPrismMesh s;
     s \<leftarrow> LoadPyramid4Mesh s;
     s \<leftarrow> LoadSphereMesh s;
     s \<leftarrow> LoadTaperedCylinderMesh s;
     s \<leftarrow> LoadTorusMesh s;
     Some s }"

text \<open>\<^verbatim>\<open>RenderScene\<close>. The argument \<open>uninitialised n\<close> is what the storage of the local
  \<^verbatim>\<open>material\<close> holds at the \<open>n\<close>-th call of \<^verbatim>\<open>SetShaderMaterial\<close>. The loop over the four
  light cubes comes first, as a function of its counter.\<close>

function RenderScene_loop ::
  "(nat \<Rightarrow> OBJECT_MATERIAL) \<Rightarrow> vec3 list \<Rightarrow> float \<Rightarrow> float \<Rightarrow> float \<Rightarrow> int \<Rightarrow> SceneManager
     \<Rightarrow> SceneManager option" where
  "RenderScene_loop uninitialised cubeColors XrotationDegrees YrotationDegrees ZrotationDegrees i s =
     (if i < 4 then do {
        let scaleXYZ = (15.0, 15.0, 15.0);
        let positionXYZ = lightPositions s (nat i);
        s \<leftarrow> SetTransformations scaleXYZ XrotationDegrees YrotationDegrees ZrotationDegrees positionXYZ s;
        s \<leftarrow> SetShaderMaterial (uninitialised (39 + nat i)) ''porcelaine'' s;
        s \<leftarrow> SetShaderColor (fst (cubeColors ! nat i)) (fst (snd (cubeColors ! nat i)))
               (snd (snd (cubeColors ! nat i))) 1.0 s;
        s \<leftarrow> DrawBoxMesh s;
        RenderScene_loop uninitialised cubeColors XrotationDegrees YrotationDegrees ZrotationDegrees (i + 1) s }
      else Some s)"
  by pat_completeness auto
termination
  by (relation "measure (\<lambda>(uninitialised, cubeColors, X, Y, Z, i, s). nat (4 - i))") auto

declare RenderScene_loop.simps [simp del]

definition RenderScene :: "(nat \<Rightarrow> OBJECT_MATERIAL) \<Rightarrow> SceneManager \<Rightarrow> SceneManager option" where
  "RenderScene uninitialised s = do {
     let XrotationDegrees = 0.0;
     let YrotationDegrees = 0.0;
     let ZrotationDegrees = 0.0;
     let scaleXYZ = (12.0, 1.0, 8.0);
     let positionXYZ = (2.5, 0.0, - 12.0);
     s \<leftarrow> SetTransformations scaleXYZ XrotationDegrees YrotationDegrees ZrotationDegrees positionXYZ s;
     s \<leftarrow> SetShaderTexture ''metal_table'' s;
     s \<leftarrow> SetShaderMaterial (uninitialised 0) ''dull'' s;
     s \<leftarrow> DrawPlaneMesh s;
     let scaleXYZ = (2.0, 2.0, 2.0);
     let positionXYZ = (0.0, 2.0, - 8.4);
     s \<leftarrow> SetTransformations scaleXYZ XrotationDegrees YrotationDegrees ZrotationDegrees positionXYZ s;
     s \<leftarrow> SetShaderMaterial (uninitialised 1) ''porcelaine'' s;
     s \<leftarrow> SetShaderTexture ''blue_vase'' s;
     s \<leftarrow> DrawSphereMesh s;
     let scaleXYZ = (0.7, 3.0, 0.7);
     let positionXYZ = (0.0, 2.0, - 8.4);
     s \<leftarrow> SetTransformations scaleXYZ XrotationDegrees YrotationDegrees ZrotationDegrees positionXYZ s;
     s \<leftarrow> SetShaderMaterial (uninitialised 2) ''porcelaine'' s;
     s \<leftarrow> SetShaderTexture ''blue_vase3'' s;
     s \<leftarrow> DrawCylinderMesh s;
     let scaleXYZ = (0.7, 0.2, 0.7);
     let positionXYZ = (0.0, 4.9, - 8.4);
     s \<leftarrow> SetTransformations scaleXYZ XrotationDegrees YrotationDegrees ZrotationDegrees positionXYZ s;
     s \<leftarrow> SetShaderMaterial (uninitialised 3) ''void'' s;
     s \<leftarrow> SetShaderColor 0 0 0 1 s;
     s \<leftarrow> DrawCylinderMesh s;
     let scaleXYZ = (0.8, 0.8, 0.8);
     let XrotationDegrees = 90.0;
     let positionXYZ = (0.0, 5.0, - 8.4);
     s \<leftarrow> SetTransformations scaleXYZ XrotationDegrees YrotationDegrees ZrotationDegrees positionXYZ s;
     s \<leftarrow> SetShaderMaterial (uninitialised 4) ''porcelaine'' s;
     s \<leftarrow> SetShaderTexture ''blue_vase3'' s;
     s \<leftarrow> DrawTorusMesh s;
     let scaleXYZ = (0.6, 1.0, 0.6);
     let XrotationDegrees = 90.0;
     let positionXYZ = (0.0, 0.14, - 8.85);
     s \<leftarrow> SetTransformations scaleXYZ XrotationDegrees YrotationDegrees ZrotationDegrees positionXYZ s;
     s \<leftarrow> SetShaderMaterial (uninitialised 5) ''porcelaine'' s;
     s \<leftarrow> SetShaderTexture ''blue_vase3'' s;
     s \<leftarrow> DrawTorusMesh s;
     let scaleXYZ = (2.5, 5.0, 2.5);
     let XrotationDegrees = 180.0;
     let positionXYZ = (- 5.0, 5.0, - 12.4);
     s \<leftarrow> SetTransformations scaleXYZ XrotationDegrees YrotationDegrees ZrotationDegrees positionXYZ s;
     s \<leftarrow> SetShaderMaterial (uninitialised 6) ''shiny'' s;
     s \<leftarrow> SetShaderTexture ''tiger_wood'' s;
     s \<leftarrow> DrawCylinderMesh s;
     let scaleXYZ = (2.5, 0.6, 2.5);
     let XrotationDegrees = 0.0;
     let positionXYZ = (- 5.0, 5.0, - 12.4);
     s \<leftarrow> SetTransformations scaleXYZ XrotationDegrees YrotationDegrees ZrotationDegrees positionXYZ s;
     s \<leftarrow> SetShaderMaterial (uninitialised 7) ''porcelaine'' s;
     s \<leftarrow> SetShaderTexture ''tiger_wood'' s;
     s \<leftarrow> DrawTaperedCylinderMesh s;
     let scaleXYZ = (1.9, 1.5, 1.9);
     let XrotationDegrees = 0.0;
     let positionXYZ = (- 5.0, 4.3, - 12.4);
     s \<leftarrow> SetTransformations scaleXYZ XrotationDegrees YrotationDegrees ZrotationDegrees positionXYZ s;
     s \<leftarrow> SetShaderMaterial (uninitialised 8) ''dull'' s;
     s \<leftarrow> SetShaderColor 0.5 0.5 0.5 1 s;
     s \<leftarrow> DrawCylinderMesh s;
     let scaleXYZ = (1.8, 1.5, 1.8);
     let XrotationDegrees = 0.0;
     let positionXYZ = (- 5.0, 4.32, - 12.4);
     s \<leftarrow> SetTransformations scaleXYZ XrotationDegrees YrotationDegrees ZrotationDegrees positionXYZ s;
     s \<leftarrow> SetShaderMaterial (uninitialised 9) ''void'' s;
     s \<leftarrow> SetShaderColor 0 0 0 1 s;
     s \<leftarrow> DrawCylinderMesh s;
     let scaleXYZ = (2.15, 2.15, 0.5);
     let XrotationDegrees = 90.0;
     let positionXYZ = (- 5.0, 0.5, - 12.4);
     s \<leftarrow> SetTransformations scaleXYZ XrotationDegrees YrotationDegrees ZrotationDegrees positionXYZ s;
     s \<leftarrow> SetShaderMaterial (uninitialised 10) ''dull'' s;
     s \<leftarrow> SetShaderColor 0.1 0.1 0.1 1 s;
     s \<leftarrow> DrawTorusMesh s;
     let scaleXYZ = (3.5, 5.4, 3.5);
     let XrotationDegrees = 180.0;
     let YrotationDegrees = - 90.0;
     let positionXYZ = (4.0, 5.2, - 12.4);
     s \<leftarrow> SetTransformations scaleXYZ XrotationDegrees YrotationDegrees ZrotationDegrees positionXYZ s;
     s \<leftarrow> SetShaderMaterial (uninitialised 11) ''shinyish'' s;
     s \<leftarrow> SetShaderTexture ''can_skin'' s;
     s \<leftarrow> DrawTaperedCylinderMesh s;
     let scaleXYZ = (3.2, 0.2, 3.2);
     let XrotationDegrees = 180.0;
     let YrotationDegrees = - 90.0;
     let positionXYZ = (4.0, 5.23, - 12.4);
     s \<leftarrow> SetTransformations scaleXYZ XrotationDegrees YrotationDegrees ZrotationDegrees positionXYZ s;
     s \<leftarrow> SetShaderMaterial (uninitialised 12) ''void'' s;
     s \<leftarrow> SetShaderColor 0 0 0 1 s;
     s \<leftarrow> DrawCylinderMesh s;
     let scaleXYZ = (2.96, 2.96, 0.5);
     let XrotationDegrees = 90.0;
     let YrotationDegrees = 0.0;
     let positionXYZ = (4.0, 5.1, - 12.4);
     s \<leftarrow> SetTransformations scaleXYZ XrotationDegrees YrotationDegrees ZrotationDegrees positionXYZ s;
     s \<leftarrow> SetShaderMaterial (uninitialised 13) ''shiny'' s;
     s \<leftarrow> SetShaderColor 0.1 0.1 0.1 1 s;
     s \<leftarrow> DrawTorusMesh s;
     let scaleXYZ = (1.6, 1.6, 0.5);
     let XrotationDegrees = 90.0;
     let YrotationDegrees = 0.0;
     let positionXYZ = (4.0, 0.08, - 12.4);
     s \<leftarrow> SetTransformations scaleXYZ XrotationDegrees YrotationDegrees ZrotationDegrees positionXYZ s;
     s \<leftarrow> SetShaderMaterial (uninitialised 14) ''shiny'' s;
     s \<leftarrow> SetShaderColor 0.1 0.1 0.1 1 s;
     s \<leftarrow> DrawTorusMesh s;
     let scaleXYZ = (0.6, 5.0, 0.6);
     let ZrotationDegrees = - 90.0;
     let positionXYZ = (4.0, 0.8, - 6.4);
     s \<leftarrow> SetTransformations scaleXYZ XrotationDegrees YrotationDegrees ZrotationDegrees positionXYZ s;
     s \<leftarrow> SetShaderMaterial (uninitialised 15) ''dull'' s;
     s \<leftarrow> SetShaderTexture ''pink_matte'' s;
     s \<leftarrow> DrawCylinderMesh s;
     let scaleXYZ = (1.1, 1.0, 1.6);
     let ZrotationDegrees = - 90.0;
     let positionXYZ = (3.5, 0.8, - 6.4);
     s \<leftarrow> SetTransformations scaleXYZ XrotationDegrees YrotationDegrees ZrotationDegrees positionXYZ s;
     s \<leftarrow> SetShaderMaterial (uninitialised 16) ''dull'' s;
     s \<leftarrow> SetShaderTexture ''pink_matte2'' s;
     s \<leftarrow> DrawBoxMesh s;
     let scaleXYZ = (1.1, 1.0, 1.6);
     let ZrotationDegrees = - 90.0;
     let positionXYZ = (8.5, 0.8, - 6.4);
     s \<leftarrow> SetTransformations scaleXYZ XrotationDegrees YrotationDegrees ZrotationDegrees positionXYZ s;
     s \<leftarrow> SetShaderMaterial (uninitialised 17) ''dull'' s;
     s \<leftarrow> SetShaderTexture ''pink_matte2'' s;
     s \<leftarrow> DrawBoxMesh s;
     let scaleXYZ = (1.6, 1.0, 0.4);
     let ZrotationDegrees = 90.0;
     let XrotationDegrees = 0.0;
     let positionXYZ = (8.5, 0.8, - 5.65);
     s \<leftarrow> SetTransformations scaleXYZ XrotationDegrees YrotationDegrees ZrotationDegrees positionXYZ s;
     s \<leftarrow> SetShaderMaterial (uninitialised 18) ''dull'' s;
     s \<leftarrow> SetShaderTexture ''pink_matte2'' s;
     s \<leftarrow> DrawPrismMesh s;
     let scaleXYZ = (1.6, 1.0, 0.4);
     let ZrotationDegrees = 90.0;
     let XrotationDegrees = 180.0;
     let positionXYZ = (8.5, 0.8, - 7.15);
     s \<leftarrow> SetTransformations scaleXYZ XrotationDegrees YrotationDegrees ZrotationDegrees positionXYZ s;
     s \<leftarrow> SetShaderMaterial (uninitialised 19) ''dull'' s;
     s \<leftarrow> SetShaderTexture ''pink_matte2'' s;
     s \<leftarrow> DrawPrismMesh s;
     let scaleXYZ = (1.6, 1.0, 0.4);
     let ZrotationDegrees = 90.0;
     let XrotationDegrees = 0.0;
     let positionXYZ = (3.5, 0.8, - 5.65);
     s \<leftarrow> SetTransformations scaleXYZ XrotationDegrees YrotationDegrees ZrotationDegrees positionXYZ s;
     s \<leftarrow> SetShaderMaterial (uninitialised 20) ''dull'' s;
     s \<leftarrow> SetShaderTexture ''pink_matte2'' s;
     s \<leftarrow> DrawPrismMesh s;
     let scaleXYZ = (1.6, 1.0, 0.4);
     let ZrotationDegrees = 90.0;
     let XrotationDegrees = 180.0;
     let positionXYZ = (3.5, 0.8, - 7.15);
     s \<leftarrow> SetTransformations scaleXYZ XrotationDegrees YrotationDegrees ZrotationDegrees positionXYZ s;
     s \<leftarrow> SetShaderMaterial (uninitialised 21) ''dull'' s;
     s \<leftarrow> SetShaderTexture ''pink_matte2'' s;
     s \<leftarrow> DrawPrismMesh s;
     let scaleXYZ = (0.2, 5.0, 2.0);
     let positionXYZ = (10.0, 0.1, - 12.4);
     s \<leftarrow> SetTransformations scaleXYZ XrotationDegrees YrotationDegrees ZrotationDegrees positionXYZ s;
     s \<leftarrow> SetShaderMaterial (uninitialised 22) ''shiny'' s;
     s \<leftarrow> SetShaderTexture ''ruby8'' s;
     s \<leftarrow> DrawBoxMesh s;
     let scaleXYZ = (0.2, 4.9, 1.9);
     let positionXYZ = (10.0, 0.15, - 12.4);
     s \<leftarrow> SetTransformations scaleXYZ XrotationDegrees YrotationDegrees ZrotationDegrees positionXYZ s;
     s \<leftarrow> SetShaderMaterial (uninitialised 23) ''shiny'' s;
     s \<leftarrow> SetShaderTexture ''ruby6'' s;
     s \<leftarrow> DrawBoxMesh s;
     let scaleXYZ = (0.15, 5.0, 2.0);
     let positionXYZ = (10.0, 0.3, - 12.4);
     s \<leftarrow> SetTransformations scaleXYZ XrotationDegrees YrotationDegrees ZrotationDegrees positionXYZ s;
     s \<leftarrow> SetShaderMaterial (uninitialised 24) ''shiny'' s;
     s \<leftarrow> SetShaderTexture ''ruby6'' s;
     s \<leftarrow> DrawBoxMesh s;
     let scaleXYZ = (0.2, 2.5, 1.4);
     let positionXYZ = (10.0, 0.3, - 12.2);
     s \<leftarrow> SetTransformations scaleXYZ XrotationDegrees YrotationDegrees ZrotationDegrees positionXYZ s;
     s \<leftarrow> SetShaderMaterial (uninitialised 25) ''shiny'' s;
     s \<leftarrow> SetShaderTexture ''ruby9'' s;
     s \<leftarrow> DrawBoxMesh s;
     let scaleXYZ = (0.2, 2.5, 0.2);
     let positionXYZ = (10.0, 0.32, - 11.55);
     s \<leftarrow> SetTransformations scaleXYZ XrotationDegrees YrotationDegrees ZrotationDegrees positionXYZ s;
     s \<leftarrow> SetShaderMaterial (uninitialised 26) ''shiny'' s;
     s \<leftarrow> SetShaderColor 0.5 0.5 0.5 1 s;
     s \<leftarrow> DrawBoxMesh s;
     let scaleXYZ = (0.2, 5.0, 2.0);
     let XrotationDegrees = 90.0;
     let positionXYZ = (10.0, 1.4, - 13.33);
     s \<leftarrow> SetTransformations scaleXYZ XrotationDegrees YrotationDegrees ZrotationDegrees positionXYZ s;
     s \<leftarrow> SetShaderMaterial (uninitialised 27) ''shiny'' s;
     s \<leftarrow> SetShaderTexture ''ruby8'' s;
     s \<leftarrow> DrawBoxMesh s;
     let scaleXYZ = (0.2, 3.2, 1.6);
     let XrotationDegrees = 90.0;
     let positionXYZ = (10.0, 1.2, - 13.32);
     s \<leftarrow> SetTransformations scaleXYZ XrotationDegrees YrotationDegrees ZrotationDegrees positionXYZ s;
     s \<leftarrow> SetShaderMaterial (uninitialised 28) ''shiny'' s;
     s \<leftarrow> SetShaderTexture ''ruby9'' s;
     s \<leftarrow> DrawBoxMesh s;
     let scaleXYZ = (0.2, 4.0, 0.25);
     let XrotationDegrees = 45.0;
     let positionXYZ = (10.0, 0.4, - 13.28);
     s \<leftarrow> SetTransformations scaleXYZ XrotationDegrees YrotationDegrees ZrotationDegrees positionXYZ s;
     s \<leftarrow> SetShaderMaterial (uninitialised 29) ''shiny'' s;
     s \<leftarrow> SetShaderColor 0.5 0.5 0.5 1 s;
     s \<leftarrow> DrawBoxMesh s;
     let scaleXYZ = (0.35, 0.1, 0.35);
     let XrotationDegrees = 90.0;
     let YrotationDegrees = 90.0;
     let positionXYZ = (8.15, 0.4, - 12.6);
     s \<leftarrow> SetTransformations scaleXYZ XrotationDegrees YrotationDegrees ZrotationDegrees positionXYZ s;
     s \<leftarrow> SetShaderMaterial (uninitialised 30) ''porcelaine'' s;
     s \<leftarrow> SetShaderColor 0.5 0.5 0.5 1 s;
     s \<leftarrow> DrawCylinderMesh s;
     let scaleXYZ = (0.25, 0.1, 0.25);
     let YrotationDegrees = 90.0;
     let positionXYZ = (8.15, 0.45, - 12.6);
     s \<leftarrow> SetTransformations scaleXYZ XrotationDegrees YrotationDegrees ZrotationDegrees positionXYZ s;
     s \<leftarrow> SetShaderMaterial (uninitialised 31) ''porcelaine'' s;
     s \<leftarrow> SetShaderTexture ''ruby9'' s;
     s \<leftarrow> DrawCylinderMesh s;
     let scaleXYZ = (0.5, 0.2, 0.15);
     let positionXYZ = (8.15, 0.32, - 11.8);
     s \<leftarrow> SetTransformations scaleXYZ XrotationDegrees YrotationDegrees ZrotationDegrees positionXYZ s;
     s \<leftarrow> SetShaderMaterial (uninitialised 32) ''porcelaine'' s;
     s \<leftarrow> SetShaderColor 0.5 0.5 0.5 1 s;
     s \<leftarrow> DrawBoxMesh s;
     let scaleXYZ = (0.15, 0.2, 0.5);
     let positionXYZ = (8.15, 0.32, - 11.8);
     s \<leftarrow> SetTransformations scaleXYZ XrotationDegrees YrotationDegrees ZrotationDegrees positionXYZ s;
     s \<leftarrow> SetShaderMaterial (uninitialised 33) ''porcelaine'' s;
     s \<leftarrow> SetShaderColor 0.5 0.5 0.5 1 s;
     s \<leftarrow> DrawBoxMesh s;
     let scaleXYZ = (0.15, 0.2, 0.15);
     let positionXYZ = (11.5, 0.32, - 11.6);
     s \<leftarrow> SetTransformations scaleXYZ XrotationDegrees YrotationDegrees ZrotationDegrees positionXYZ s;
     s \<leftarrow> SetShaderMaterial (uninitialised 34) ''shinyMaterial'' s;
     s \<leftarrow> SetShaderColor 0.5 0.5 0.5 1 s;
     s \<leftarrow> DrawBoxMesh s;
     let scaleXYZ = (0.14, 0.1, 0.14);
     let YrotationDegrees = 90.0;
     let positionXYZ = (11.9, 0.4, - 12.65);
     s \<leftarrow> SetTransformations scaleXYZ XrotationDegrees YrotationDegrees ZrotationDegrees positionXYZ s;
     s \<leftarrow> SetShaderMaterial (uninitialised 35) ''shinyMaterial'' s;
     s \<leftarrow> SetShaderColor 0.5 0.5 0.5 1 s;
     s \<leftarrow> DrawCylinderMesh s;
     let scaleXYZ = (0.14, 0.1, 0.14);
     let YrotationDegrees = 90.0;
     let positionXYZ = (11.9, 0.4, - 12.1);
     s \<leftarrow> SetTransformations scaleXYZ XrotationDegrees YrotationDegrees ZrotationDegrees positionXYZ s;
     s \<leftarrow> SetShaderMaterial (uninitialised 36) ''shinyMaterial'' s;
     s \<leftarrow> SetShaderColor 0.5 0.5 0.5 1 s;
     s \<leftarrow> DrawCylinderMesh s;
     let scaleXYZ = (0.14, 0.1, 0.14);
     let YrotationDegrees = 90.0;
     let positionXYZ = (12.15, 0.4, - 12.37);
     s \<leftarrow> SetTransformations scaleXYZ XrotationDegrees YrotationDegrees ZrotationDegrees positionXYZ s;
     s \<leftarrow> SetShaderMaterial (uninitialised 37) ''shinyMaterial'' s;
     s \<leftarrow> SetShaderColor 0.5 0.5 0.5 1 s;
     s \<leftarrow> DrawCylinderMesh s;
     let scaleXYZ = (0.14, 0.1, 0.14);
     let YrotationDegrees = 90.0;
     let positionXYZ = (11.65, 0.4, - 12.37);
     s \<leftarrow> SetTransformations scaleXYZ XrotationDegrees YrotationDegrees ZrotationDegrees positionXYZ s;
     s \<leftarrow> SetShaderMaterial (uninitialised 38) ''shinyMaterial'' s;
     s \<leftarrow> SetShaderColor 0.5 0.5 0.5 1 s;
     s \<leftarrow> DrawCylinderMesh s;
     let cubeColors = [(1.0, 0.0, 0.0), (0.0, 1.0, 0.0), (0.0, 0.0, 1.0), (1.0, 1.0, 0.0)];
     RenderScene_loop uninitialised cubeColors XrotationDegrees YrotationDegrees ZrotationDegrees 0 s }"

subsection \<open>Notions used to state the properties\<close>

text \<open>The five material uniforms of the shader program.\<close>

definition material_uniform_names :: "string list" where
  "material_uniform_names =
     [''material.ambientColor'', ''material.ambientStrength'', ''material.diffuseColor'',
      ''material.specularColor'', ''material.shininess'']"

text \<open>The tags of the registered textures, in slot order.\<close>

definition registered_tags :: "SceneManager \<Rightarrow> string list" where
  "registered_tags s = map (\<lambda>i. TEXTURE_INFO.tag (m_textureIDs s i)) [0..<nat (m_loadedTextures s)]"

text \<open>The five materials \<^verbatim>\<open>DefineObjectMaterials\<close> is expected to append.\<close>

definition seed_catalogue :: "OBJECT_MATERIAL list" where
  "seed_catalogue =
     [\<lparr>ambientStrength = 0.7, ambientColor = (0.3, 0.3, 0.3), diffuseColor = (0.8, 0.7, 0.2),
       specularColor = (0.5, 0.5, 0.5), shininess = 50, tag = ''shiny''\<rparr>,
      \<lparr>ambientStrength = 0.5, ambientColor = (0.3, 0.3, 0.3), diffuseColor = (0.8, 0.7, 0.2),
       specularColor = (0.5, 0.5, 0.5), shininess = 25, tag = ''shinyish''\<rparr>,
      \<lparr>ambientStrength = 0.5, ambientColor = (0.3, 0.3, 0.3), diffuseColor = (0.8, 0.7, 0.2),
       specularColor = (0.5, 0.5, 0.5), shininess = 16, tag = ''porcelaine''\<rparr>,
      \<lparr>ambientStrength = 0.6, ambientColor = (0.3, 0.3, 0.3), diffuseColor = (0.8, 0.7, 0.2),
       specularColor = (0.5, 0.5, 0.5), shininess = 1, tag = ''dull''\<rparr>,
      \<lparr>ambientStrength = 0, ambientColor = (0, 0, 0), diffuseColor = (0, 0, 0),
       specularColor = (0, 0, 0), shininess = 0, tag = ''void''\<rparr>]"

text \<open>The model matrix of the specification:
  \<open>Translate(position) \<cdot> RotateX \<cdot> RotateY \<cdot> RotateZ \<cdot> Scale(scale)\<close>, the angles given in
  degrees.\<close>

definition model_matrix :: "vec3 \<Rightarrow> float \<Rightarrow> float \<Rightarrow> float \<Rightarrow> vec3 \<Rightarrow> mat4" where
  "model_matrix scaleXYZ x y z positionXYZ =
     mat4_times (mat4_times (mat4_times (mat4_times
       (glm_translate positionXYZ)
       (glm_rotate (glm_radians x) (1, 0, 0)))
       (glm_rotate (glm_radians y) (0, 1, 0)))
       (glm_rotate (glm_radians z) (0, 0, 1)))
       (glm_scale scaleXYZ)"

text \<open>A scene manager constructed on zeroed storage with a shader manager, used as the
  concrete starting point of the examples.\<close>

definition zeroed_storage :: SceneManager where
  "zeroed_storage =
     \<lparr>lightPositions = (\<lambda>i. (0, 0, 0)), m_pShaderManager = NULL, m_basicMeshes = NULL,
      m_loadedTextures = 0, m_textureIDs = (\<lambda>i. \<lparr>TEXTURE_INFO.tag = [], ID = 0\<rparr>),
      m_objectMaterials = [], journal = []\<rparr>"

definition scene0 :: SceneManager where
  "scene0 = SceneManager_ctor NonNull zeroed_storage"

text \<open>That scene manager after \<^verbatim>\<open>DefineObjectMaterials()\<close> and
  \<^verbatim>\<open>SetShaderMaterial("shiny")\<close>.\<close>

definition shiny_bound :: "OBJECT_MATERIAL \<Rightarrow> SceneManager" where
  "shiny_bound v = the (SetShaderMaterial v ''shiny'' (DefineObjectMaterials scene0))"

text \<open>A sequence of successful registrations: \<^verbatim>\<open>CreateGLTexture\<close> is called for each
  (file, tag) pair in turn and every call returns \<^verbatim>\<open>true\<close>.\<close>

fun register_all :: "env \<Rightarrow> (string \<times> string) list \<Rightarrow> SceneManager \<Rightarrow> SceneManager option" where
  "register_all E [] s = Some s"
| "register_all E ((filename, tg) # rest) s =
     (case CreateGLTexture E filename tg s of
        Some (True, s') \<Rightarrow> register_all E rest s'
      | _ \<Rightarrow> None)"

text \<open>A scene manager with one registered texture, tagged \<^verbatim>\<open>metal_table\<close>.\<close>

definition one_texture :: SceneManager where
  "one_texture = scene0\<lparr>m_loadedTextures := 1,
     m_textureIDs := (m_textureIDs scene0)(0 := \<lparr>TEXTURE_INFO.tag = ''metal_table'', ID = 7\<rparr>)\<rparr>"

text \<open>What a registration decides on and leaves behind in the registry, apart from the
  texture names handed out by OpenGL: the number of loaded textures and the tag of every
  entry.\<close>

definition registry_view :: "SceneManager \<Rightarrow> int \<times> (nat \<Rightarrow> string)" where
  "registry_view s = (m_loadedTextures s, \<lambda>i. TEXTURE_INFO.tag (m_textureIDs s i))"

text \<open>An outside world in which no image file can be decoded.\<close>

definition no_files :: env where
  "no_files = \<lparr>stbi_load_result = (\<lambda>f. None), glGenTextures_result = (\<lambda>cs. 1)\<rparr>"

text \<open>The OpenGL calls of one pass of \<^verbatim>\<open>BindGLTextures\<close> over the slots \<open>i..<n\<close>.\<close>

definition bind_calls :: "SceneManager \<Rightarrow> nat \<Rightarrow> nat \<Rightarrow> call list" where
  "bind_calls s i n =
     concat (map (\<lambda>j. [GlActiveTexture (GL_TEXTURE0 + int j),
                        GlBindTexture GL_TEXTURE_2D (ID (m_textureIDs s j))]) [i..<n])"

text \<open>An outside world with an RGB image \<^verbatim>\<open>fileA.png\<close> and an RGBA image
  \<^verbatim>\<open>fileB.png\<close>.\<close>

definition two_files :: env where
  "two_files =
     \<lparr>stbi_load_result = (\<lambda>f. if f = ''fileA.png'' then Some (64, 64, 3)
                              else if f = ''fileB.png'' then Some (32, 32, 4) else None),
      glGenTextures_result = (\<lambda>cs. of_nat (Suc (length cs)))\<rparr>"

text \<open>Two states of the scene manager with the same data members; only the journal of
  external calls may differ.\<close>

definition same_members :: "SceneManager \<Rightarrow> SceneManager \<Rightarrow> bool" where
  "same_members s s' \<longleftrightarrow> s' = s\<lparr>journal := journal s'\<rparr>"

text \<open>The states in which rendering meets no undefined behaviour: a shader manager and a
  mesh object are attached and the texture registry is within the capacity of its array.\<close>

definition renderable :: "SceneManager \<Rightarrow> bool" where
  "renderable s \<longleftrightarrow>
     m_pShaderManager s \<noteq> NULL \<and> m_basicMeshes s \<noteq> NULL \<and> m_loadedTextures s \<le> 16"

text \<open>A piece of the render pass: it changes no data member, and it returns in every
  renderable state.\<close>

definition render_step :: "(SceneManager \<Rightarrow> SceneManager option) \<Rightarrow> bool" where
  "render_step f \<longleftrightarrow>
     (\<forall>s s'. f s = Some s' \<longrightarrow> same_members s s') \<and> (\<forall>s. renderable s \<longrightarrow> f s \<noteq> None)"

text \<open>The (file, tag) pairs of \<^verbatim>\<open>LoadSceneTextures\<close>, in the order of its calls.\<close>

definition scene_textures :: "(string \<times> string) list" where
  "scene_textures =
     [(''../../Utilities/textures/metal_table.jpg'', ''metal_table''),
      (''../../Utilities/textures/blue_vase.jpg'', ''blue_vase''),
      (''../../Utilities/textures/blue_vase3.jpg'', ''blue_vase3''),
      (''../../Utilities/textures/tiger_wood.jpg'', ''tiger_wood''),
      (''../../Utilities/textures/pink_matte.jpg'', ''pink_matte''),
      (''../../Utilities/textures/pink_matte2.jpg'', ''pink_matte2''),
      (''../../Utilities/textures/ruby4.jpg'', ''ruby4''),
      (''../../Utilities/textures/ruby6.jpg'', ''ruby6''),
      (''../../Utilities/textures/ruby8.jpg'', ''ruby8''),
      (''../../Utilities/textures/ruby9.jpg'', ''ruby9''),
      (''../../Utilities/textures/trash1.jpg'', ''trash1''),
      (''../../Utilities/textures/can_skin.jpg'', ''can_skin''),
      (''../../Utilities/textures/matte_rubber.jpg'', ''matte_rubber''),
      (''../../Utilities/textures/porcelain_vase.jpg'', ''porcelain_vase'')]"

text \<open>\<^verbatim>\<open>CreateGLTexture\<close> called for each (file, tag) pair in turn, the results ignored as
  \<^verbatim>\<open>LoadSceneTextures\<close> ignores \<^verbatim>\<open>bReturn\<close>.\<close>

fun register_each :: "env \<Rightarrow> (string \<times> string) list \<Rightarrow> SceneManager \<Rightarrow> SceneManager option" where
  "register_each E [] s = Some s"
| "register_each E ((filename, tg) # rest) s =
     (case CreateGLTexture E filename tg s of
        None \<Rightarrow> None
      | Some (bReturn, s') \<Rightarrow> register_each E rest s')"

text \<open>The files that can be registered: they decode, with 3 or 4 channels.\<close>

definition decodable :: "env \<Rightarrow> string \<Rightarrow> bool" where
  "decodable E filename =
     (case stbi_load_result E filename of
        None \<Rightarrow> False
      | Some (width, height, colorChannels) \<Rightarrow> colorChannels = 3 \<or> colorChannels = 4)"

text \<open>The files passed to \<^verbatim>\<open>stbi_load\<close>, in call order.\<close>

definition files_loaded :: "call list \<Rightarrow> string list" where
  "files_loaded cs = concat (map (\<lambda>c. case c of StbiLoad filename \<Rightarrow> [filename] | _ \<Rightarrow> []) cs)"

text \<open>The calls of the light configuration: writes to \<^verbatim>\<open>bUseLighting\<close> and to the
  \<^verbatim>\<open>lightSources[i]\<close> uniforms.\<close>

fun is_light_call :: "call \<Rightarrow> bool" where
  "is_light_call (SetUniform name v) = (name = ''bUseLighting'' \<or> take 13 name = ''lightSources['')"
| "is_light_call _ = False"

text \<open>The calls a texture registration can make: decoding, printing, and texture creation.
  It never selects a texture unit, writes a uniform or touches a mesh.\<close>

fun is_registration_call :: "call \<Rightarrow> bool" where
  "is_registration_call (SetUniform name v) = False"
| "is_registration_call (GlActiveTexture u) = False"
| "is_registration_call (LoadMesh k) = False"
| "is_registration_call (DrawMesh k) = False"
| "is_registration_call _ = True"

text \<open>The primitive meshes, in the order \<^verbatim>\<open>PrepareScene\<close> prepares them.\<close>

definition scene_meshes :: "mesh list" where
  "scene_meshes = [BoxMesh, PlaneMesh, CylinderMesh, ConeMesh, PrismMesh, Pyramid4Mesh,
                   SphereMesh, TaperedCylinderMesh, TorusMesh]"

text \<open>The data members outside the texture registry, apart from the journal.\<close>

definition other_members :: "SceneManager \<Rightarrow> pointer \<times> pointer \<times> OBJECT_MATERIAL list \<times> (nat \<Rightarrow> vec3)" where
  "other_members s = (m_pShaderManager s, m_basicMeshes s, m_objectMaterials s, lightPositions s)"

text \<open>An all-zero material, for the uninitialised local of the examples.\<close>

definition zero_material :: OBJECT_MATERIAL where
  "zero_material = \<lparr>ambientStrength = 0, ambientColor = (0, 0, 0), diffuseColor = (0, 0, 0),
     specularColor = (0, 0, 0), shininess = 0, tag = []\<rparr>"

text \<open>An outside world in which every file decodes to an RGB image.\<close>

definition all_decode :: env where
  "all_decode = \<lparr>stbi_load_result = (\<lambda>f. Some (4, 4, 3)), glGenTextures_result = (\<lambda>cs. 1)\<rparr>"

text \<open>Seventeen (file, tag) pairs with distinct tags.\<close>

definition seventeen :: "(string \<times> string) list" where
  "seventeen =
     [(''a.jpg'', ''a''), (''b.jpg'', ''b''), (''c.jpg'', ''c''), (''d.jpg'', ''d''),
      (''e.jpg'', ''e''), (''f.jpg'', ''f''), (''g.jpg'', ''g''), (''h.jpg'', ''h''),
      (''i.jpg'', ''i''), (''j.jpg'', ''j''), (''k.jpg'', ''k''), (''l.jpg'', ''l''),
      (''m.jpg'', ''m''), (''n.jpg'', ''n''), (''o.jpg'', ''o''), (''p.jpg'', ''p''),
      (''q.jpg'', ''q'')]"

text \<open>A scene manager constructed on storage in which the bytes of \<^verbatim>\<open>m_loadedTextures\<close>,
  a member the constructor does not assign, hold 3.\<close>

definition late_start :: SceneManager where
  "late_start = SceneManager_ctor NonNull (zeroed_storage\<lparr>m_loadedTextures := 3\<rparr>)"

section \<open>Properties\<close>

subsection \<open>The journal and the uniform store\<close>

lemma emit_fields [simp]:
  "journal (emit c s) = journal s @ [c]"
  "lightPositions (emit c s) = lightPositions s"
  "m_pShaderManager (emit c s) = m_pShaderManager s"
  "m_basicMeshes (emit c s) = m_basicMeshes s"
  "m_loadedTextures (emit c s) = m_loadedTextures s"
  "m_textureIDs (emit c s) = m_textureIDs s"
  "m_objectMaterials (emit c s) = m_objectMaterials s"
  by (simp_all add: emit_def)

lemma shader_call_Some [simp]:
  "m_pShaderManager s \<noteq> NULL \<Longrightarrow> shader_call name v s = Some (emit (SetUniform name v) s)"
  by (simp add: shader_call_def)

lemma shader_call_None [simp]:
  "m_pShaderManager s = NULL \<Longrightarrow> shader_call name v s = None"
  by (simp add: shader_call_def)

lemmas setters =
  setBoolValue_def setIntValue_def setFloatValue_def setVec2Value_def setVec3Value_def
  setVec4Value_def setMat4Value_def setSampler2DValue_def

lemma uniforms_append [simp]:
  "uniforms (cs @ ds) = foldl uniform_step (uniforms cs) ds"
  by (simp add: uniforms_def)

lemma uniforms_Nil [simp]: "uniforms [] = Map.empty"
  by (simp add: uniforms_def)

lemma uniforms_Cons [simp]:
  "uniforms (c # cs) = foldl uniform_step (uniform_step Map.empty c) cs"
  by (simp add: uniforms_def)

lemma uniform_step_simps [simp]:
  "uniform_step m (SetUniform name v) = m(name \<mapsto> v)"
  "uniform_step m (StbiSetFlipVerticallyOnLoad b) = m"
  "uniform_step m (StbiLoad file) = m"
  "uniform_step m StbiImageFree = m"
  "uniform_step m (GlGenTextures w) = m"
  "uniform_step m (GlBindTexture t w) = m"
  "uniform_step m (GlTexParameteri t1 t2 t3) = m"
  "uniform_step m (GlTexImage2D a1 a2 a3 a4 a5 a6 a7 a8) = m"
  "uniform_step m (GlGenerateMipmap t) = m"
  "uniform_step m (GlActiveTexture u) = m"
  "uniform_step m (Cout line) = m"
  "uniform_step m (LoadMesh k) = m"
  "uniform_step m (DrawMesh k) = m"
  by (simp_all add: uniform_step_def)

lemma scene0_fields [simp]:
  "m_pShaderManager scene0 = NonNull"
  "m_basicMeshes scene0 = NonNull"
  "m_loadedTextures scene0 = 0"
  "m_objectMaterials scene0 = []"
  "journal scene0 = []"
  by (simp_all add: scene0_def SceneManager_ctor_def zeroed_storage_def)

subsection \<open>Flat colour\<close>

lemma SetShaderColor_Some:
  "m_pShaderManager s \<noteq> NULL \<Longrightarrow>
   SetShaderColor r g b a s =
     Some (emit (SetUniform g_ColorValueName (Vec4Value (r, g, b, a)))
            (emit (SetUniform g_UseTextureName (IntValue 0)) s))"
  by (simp add: SetShaderColor_def setters)

lemma SetShaderColor_NULL: "m_pShaderManager s = NULL \<Longrightarrow> SetShaderColor r g b a s = Some s"
  by (simp add: SetShaderColor_def)

text \<open>Claim C6. Whenever a shader manager is attached, \<^verbatim>\<open>SetShaderColor(r, g, b, a)\<close>
  returns, sets the uniform \<^verbatim>\<open>bUseTexture\<close> to false (the integer 0) and the uniform
  \<^verbatim>\<open>objectColor\<close> to \<open>(r, g, b, a)\<close>, and leaves every other uniform as it was: the five
  material uniforms, the sampler uniform \<^verbatim>\<open>objectTexture\<close>, and any other name. The
  registries and the other members of the scene manager are not touched either.\<close>

theorem SetShaderColor_flat_colour:
  assumes "m_pShaderManager s \<noteq> NULL"
  shows "\<exists>s'. SetShaderColor r g b a s = Some s' \<and>
           uniforms (journal s') ''bUseTexture'' = Some (IntValue 0) \<and>
           uniforms (journal s') ''objectColor'' = Some (Vec4Value (r, g, b, a)) \<and>
           (\<forall>name \<in> set material_uniform_names.
              uniforms (journal s') name = uniforms (journal s) name) \<and>
           uniforms (journal s') ''objectTexture'' = uniforms (journal s) ''objectTexture'' \<and>
           (\<forall>name. name \<noteq> ''bUseTexture'' \<and> name \<noteq> ''objectColor'' \<longrightarrow>
              uniforms (journal s') name = uniforms (journal s) name) \<and>
           m_textureIDs s' = m_textureIDs s \<and> m_loadedTextures s' = m_loadedTextures s \<and>
           m_objectMaterials s' = m_objectMaterials s"
  using assms
  by (simp add: SetShaderColor_Some g_UseTextureName_def g_ColorValueName_def
      material_uniform_names_def)

theorem SetShaderColor_flat_colour_witness:
  "m_pShaderManager scene0 \<noteq> NULL \<and>
   (\<exists>s'. SetShaderColor 1 0 0 1 scene0 = Some s' \<and>
      uniforms (journal s') ''bUseTexture'' = Some (IntValue 0) \<and>
      uniforms (journal s') ''objectColor'' = Some (Vec4Value (1, 0, 0, 1)) \<and>
      uniforms (journal s') ''material.shininess'' = None)"
  using SetShaderColor_flat_colour [of scene0 1 0 0 1]
  by (auto simp: material_uniform_names_def)

subsection \<open>Materials\<close>

lemma FindMaterial_loop_missing:
  "\<forall>m \<in> set ms. OBJECT_MATERIAL.tag m \<noteq> tg \<Longrightarrow> 0 \<le> index \<Longrightarrow>
   FindMaterial_loop ms tg index bFound material = material"
proof (induction ms tg index bFound material rule: FindMaterial_loop.induct)
  case (1 ms tg index bFound material)
  show ?case
  proof (cases "index < int (length ms) \<and> bFound = False")
    case True
    with "1.prems" have "nat index < length ms" by linarith
    then have "ms ! nat index \<in> set ms" by (rule nth_mem)
    with "1.prems" have ne: "OBJECT_MATERIAL.tag (ms ! nat index) \<noteq> tg" by blast
    from True ne "1.IH"(2) "1.prems"
    have "FindMaterial_loop ms tg (index + 1) bFound material = material" by simp
    with True ne show ?thesis by (subst FindMaterial_loop.simps) simp
  next
    case False
    then show ?thesis by (subst FindMaterial_loop.simps) auto
  qed
qed

lemma SetShaderMaterial_missing:
  assumes "m_objectMaterials s \<noteq> []"
    and "\<forall>m \<in> set (m_objectMaterials s). OBJECT_MATERIAL.tag m \<noteq> materialTag"
    and "m_pShaderManager s \<noteq> NULL"
  shows "SetShaderMaterial u materialTag s =
           Some (s\<lparr>journal := journal s @
             [SetUniform ''material.ambientColor'' (Vec3Value (ambientColor u)),
              SetUniform ''material.ambientStrength'' (FloatValue (ambientStrength u)),
              SetUniform ''material.diffuseColor'' (Vec3Value (diffuseColor u)),
              SetUniform ''material.specularColor'' (Vec3Value (specularColor u)),
              SetUniform ''material.shininess'' (FloatValue (shininess u))]\<rparr>)"
  using assms
  by (simp add: SetShaderMaterial_def FindMaterial_def FindMaterial_loop_missing setters emit_def)

lemma SetShaderMaterial_empty:
  "m_objectMaterials s = [] \<Longrightarrow> SetShaderMaterial u materialTag s = Some s"
  by (simp add: SetShaderMaterial_def)

lemma DefineObjectMaterials_fields [simp]:
  "journal (DefineObjectMaterials s) = journal s"
  "lightPositions (DefineObjectMaterials s) = lightPositions s"
  "m_pShaderManager (DefineObjectMaterials s) = m_pShaderManager s"
  "m_basicMeshes (DefineObjectMaterials s) = m_basicMeshes s"
  "m_loadedTextures (DefineObjectMaterials s) = m_loadedTextures s"
  "m_textureIDs (DefineObjectMaterials s) = m_textureIDs s"
  by (simp_all add: DefineObjectMaterials_def push_back_material_def)

lemma DefineObjectMaterials_appends:
  "m_objectMaterials (DefineObjectMaterials s) = m_objectMaterials s @ seed_catalogue"
  by (simp add: DefineObjectMaterials_def push_back_material_def seed_catalogue_def)

lemma ctor_materials [simp]: "m_objectMaterials (SceneManager_ctor p raw) = []"
  by (simp add: SceneManager_ctor_def)

lemma FindMaterial_seeded:
  "FindMaterial (DefineObjectMaterials (SceneManager_ctor p raw)) ''shiny'' u =
     (True, u\<lparr>ambientStrength := 0.7, ambientColor := (0.3, 0.3, 0.3),
              diffuseColor := (0.8, 0.7, 0.2), specularColor := (0.5, 0.5, 0.5), shininess := 50\<rparr>)"
  "FindMaterial (DefineObjectMaterials (SceneManager_ctor p raw)) ''void'' u =
     (True, u\<lparr>ambientStrength := 0, ambientColor := (0, 0, 0),
              diffuseColor := (0, 0, 0), specularColor := (0, 0, 0), shininess := 0\<rparr>)"
  by (simp_all add: DefineObjectMaterials_appends FindMaterial_def)
     (simp_all add: seed_catalogue_def FindMaterial_loop.simps)

text \<open>Claim C8. \<^verbatim>\<open>DefineObjectMaterials\<close> appends exactly five materials to the catalogue,
  tagged shiny, shinyish, porcelaine, dull and void in this order, with the
  (ambientStrength, shininess) pairs (0.7, 50), (0.5, 25), (0.5, 16), (0.6, 1), (0, 0); the
  first four have ambientColor (0.3, 0.3, 0.3), diffuseColor (0.8, 0.7, 0.2) and
  specularColor (0.5, 0.5, 0.5), and void has every colour zero. On a freshly constructed
  scene manager, \<^verbatim>\<open>FindMaterial\<close> then returns shininess 50 for "shiny" and shininess 0 for
  "void".\<close>

theorem DefineObjectMaterials_seed:
  "m_objectMaterials (DefineObjectMaterials s) = m_objectMaterials s @ seed_catalogue \<and>
   length seed_catalogue = 5 \<and>
   map OBJECT_MATERIAL.tag seed_catalogue = [''shiny'', ''shinyish'', ''porcelaine'', ''dull'', ''void''] \<and>
   map (\<lambda>m. (ambientStrength m, shininess m)) seed_catalogue =
     [(0.7, 50), (0.5, 25), (0.5, 16), (0.6, 1), (0, 0)] \<and>
   map (\<lambda>m. (ambientColor m, diffuseColor m, specularColor m)) seed_catalogue =
     [((0.3, 0.3, 0.3), (0.8, 0.7, 0.2), (0.5, 0.5, 0.5)),
      ((0.3, 0.3, 0.3), (0.8, 0.7, 0.2), (0.5, 0.5, 0.5)),
      ((0.3, 0.3, 0.3), (0.8, 0.7, 0.2), (0.5, 0.5, 0.5)),
      ((0.3, 0.3, 0.3), (0.8, 0.7, 0.2), (0.5, 0.5, 0.5)),
      ((0, 0, 0), (0, 0, 0), (0, 0, 0))] \<and>
   fst (FindMaterial (DefineObjectMaterials (SceneManager_ctor p raw)) ''shiny'' u) = True \<and>
   shininess (snd (FindMaterial (DefineObjectMaterials (SceneManager_ctor p raw)) ''shiny'' u)) = 50.0 \<and>
   fst (FindMaterial (DefineObjectMaterials (SceneManager_ctor p raw)) ''void'' u) = True \<and>
   shininess (snd (FindMaterial (DefineObjectMaterials (SceneManager_ctor p raw)) ''void'' u)) = 0.0"
  by (simp add: DefineObjectMaterials_appends FindMaterial_seeded) (simp add: seed_catalogue_def)

lemma shiny_bound_eq:
  "shiny_bound v = (DefineObjectMaterials scene0)\<lparr>journal :=
     [SetUniform ''material.ambientColor'' (Vec3Value (0.3, 0.3, 0.3)),
      SetUniform ''material.ambientStrength'' (FloatValue 0.7),
      SetUniform ''material.diffuseColor'' (Vec3Value (0.8, 0.7, 0.2)),
      SetUniform ''material.specularColor'' (Vec3Value (0.5, 0.5, 0.5)),
      SetUniform ''material.shininess'' (FloatValue 50)]\<rparr>"
  using FindMaterial_seeded(1) [of NonNull zeroed_storage v]
  by (simp add: shiny_bound_def SetShaderMaterial_def scene0_def [symmetric] setters emit_def
      DefineObjectMaterials_appends seed_catalogue_def)

text \<open>Claim C1, evaluated on the code. The catalogue holds the five seeded materials and
  the material uniforms hold the values of "shiny". \<^verbatim>\<open>SetShaderMaterial("shinyMaterial")\<close>,
  a tag that is not in the catalogue (and the tag \<^verbatim>\<open>RenderScene\<close> passes for five of its
  objects), returns and overwrites all five material uniforms with the contents \<open>u\<close> of
  its uninitialised local: \<^verbatim>\<open>FindMaterial\<close> answers \<^verbatim>\<open>true\<close> for every tag once the
  catalogue is not empty.\<close>

theorem SetShaderMaterial_missing_tag_overwrites:
  "map (uniforms (journal (shiny_bound v))) material_uniform_names =
     [Some (Vec3Value (0.3, 0.3, 0.3)), Some (FloatValue 0.7), Some (Vec3Value (0.8, 0.7, 0.2)),
      Some (Vec3Value (0.5, 0.5, 0.5)), Some (FloatValue 50)] \<and>
   (\<exists>s'. SetShaderMaterial u ''shinyMaterial'' (shiny_bound v) = Some s' \<and>
      map (uniforms (journal s')) material_uniform_names =
        [Some (Vec3Value (ambientColor u)), Some (FloatValue (ambientStrength u)),
         Some (Vec3Value (diffuseColor u)), Some (Vec3Value (specularColor u)),
         Some (FloatValue (shininess u))])"
proof -
  have a: "m_objectMaterials (shiny_bound v) \<noteq> []"
    by (simp add: shiny_bound_eq DefineObjectMaterials_appends seed_catalogue_def)
  have b: "\<forall>m \<in> set (m_objectMaterials (shiny_bound v)). OBJECT_MATERIAL.tag m \<noteq> ''shinyMaterial''"
    by (simp add: shiny_bound_eq DefineObjectMaterials_appends seed_catalogue_def)
  have c: "m_pShaderManager (shiny_bound v) \<noteq> NULL"
    by (simp add: shiny_bound_eq)
  show ?thesis
    by (simp add: SetShaderMaterial_missing [OF a b c] material_uniform_names_def)
       (simp add: shiny_bound_eq)
qed

subsection \<open>The model matrix\<close>

lemma glm_rotate_zero:
  "glm_rotate (glm_radians 0) (1, 0, 0) = mat4_identity"
  "glm_rotate (glm_radians 0) (0, 1, 0) = mat4_identity"
  "glm_rotate (glm_radians 0) (0, 0, 1) = mat4_identity"
  by (simp_all add: glm_rotate_def glm_radians_def mat4_identity_def)

text \<open>The three rotations are the rotations about the X, Y and Z axes.\<close>

lemma glm_rotate_X:
  "glm_rotate a (1, 0, 0) = ((1, 0, 0, 0), (0, cos a, sin a, 0), (0, - sin a, cos a, 0), (0, 0, 0, 1))"
  by (simp add: glm_rotate_def mat4_identity_def Let_def)

lemma glm_rotate_Y:
  "glm_rotate a (0, 1, 0) = ((cos a, 0, - sin a, 0), (0, 1, 0, 0), (sin a, 0, cos a, 0), (0, 0, 0, 1))"
  by (simp add: glm_rotate_def mat4_identity_def Let_def)

lemma glm_rotate_Z:
  "glm_rotate a (0, 0, 1) = ((cos a, sin a, 0, 0), (- sin a, cos a, 0, 0), (0, 0, 1, 0), (0, 0, 0, 1))"
  by (simp add: glm_rotate_def mat4_identity_def Let_def)

lemma glm_scale_eq:
  "glm_scale (x, y, z) = ((x, 0, 0, 0), (0, y, 0, 0), (0, 0, z, 0), (0, 0, 0, 1))"
  by (simp add: glm_scale_def mat4_identity_def)

lemma glm_translate_eq:
  "glm_translate (x, y, z) = ((1, 0, 0, 0), (0, 1, 0, 0), (0, 0, 1, 0), (x, y, z, 1))"
  by (simp add: glm_translate_def mat4_identity_def)

lemma model_matrix_identity: "model_matrix (1, 1, 1) 0 0 0 (0, 0, 0) = mat4_identity"
  by (simp add: model_matrix_def glm_rotate_zero glm_scale_eq glm_translate_eq)
     (simp add: mat4_identity_def)

lemma SetTransformations_Some:
  "m_pShaderManager s \<noteq> NULL \<Longrightarrow>
   SetTransformations scaleXYZ x y z positionXYZ s =
     Some (emit (SetUniform g_ModelName (Mat4Value (model_matrix scaleXYZ x y z positionXYZ))) s)"
  by (simp add: SetTransformations_def setters model_matrix_def)

lemma SetTransformations_NULL:
  "m_pShaderManager s = NULL \<Longrightarrow> SetTransformations scaleXYZ x y z positionXYZ s = Some s"
  by (simp add: SetTransformations_def)

text \<open>Claim C3. Whenever a shader manager is attached, \<^verbatim>\<open>SetTransformations\<close> returns and
  makes one call on the shader manager, which writes to the uniform \<^verbatim>\<open>model\<close> the matrix
  \<open>Translate(position) \<cdot> RotateX(radians x) \<cdot> RotateY(radians y) \<cdot> RotateZ(radians z) \<cdot>
  Scale(scale)\<close>, the angles being converted from degrees by \<^verbatim>\<open>glm::radians\<close>. For scale
  (1, 1, 1), rotations 0, 0, 0 and position (0, 0, 0) the matrix written is the identity.
  (Floats are idealised as reals.)\<close>

theorem SetTransformations_model:
  assumes "m_pShaderManager s \<noteq> NULL"
  shows "(\<exists>s'. SetTransformations scaleXYZ x y z positionXYZ s = Some s' \<and>
            journal s' = journal s @
              [SetUniform ''model'' (Mat4Value
                (mat4_times (mat4_times (mat4_times (mat4_times
                   (glm_translate positionXYZ)
                   (glm_rotate (glm_radians x) (1, 0, 0)))
                   (glm_rotate (glm_radians y) (0, 1, 0)))
                   (glm_rotate (glm_radians z) (0, 0, 1)))
                   (glm_scale scaleXYZ)))] \<and>
            uniforms (journal s') ''model'' =
              Some (Mat4Value (model_matrix scaleXYZ x y z positionXYZ))) \<and>
         (\<exists>s'. SetTransformations (1, 1, 1) 0 0 0 (0, 0, 0) s = Some s' \<and>
            uniforms (journal s') ''model'' = Some (Mat4Value mat4_identity))"
  using assms
  by (simp add: SetTransformations_Some g_ModelName_def model_matrix_identity)
     (simp add: model_matrix_def)

theorem SetTransformations_model_witness:
  "m_pShaderManager scene0 \<noteq> NULL \<and>
   (\<exists>s'. SetTransformations (1, 1, 1) 0 0 0 (0, 0, 0) scene0 = Some s' \<and>
      uniforms (journal s') ''model'' = Some (Mat4Value mat4_identity))"
  using SetTransformations_model [of scene0 "(1, 1, 1)" 0 0 0 "(0, 0, 0)"]
  by auto

subsection \<open>Texture lookup\<close>

lemma texture_at_simps [simp]:
  "0 \<le> i \<Longrightarrow> i < 16 \<Longrightarrow> texture_at s i = Some (m_textureIDs s (nat i))"
  "i < 0 \<or> 16 \<le> i \<Longrightarrow> texture_at s i = None"
  by (auto simp: texture_at_def)

lemma registered_tags_iff:
  "tg \<notin> set (registered_tags s) \<longleftrightarrow>
   (\<forall>i. 0 \<le> i \<and> i < m_loadedTextures s \<longrightarrow> TEXTURE_INFO.tag (m_textureIDs s (nat i)) \<noteq> tg)"
proof
  assume a: "tg \<notin> set (registered_tags s)"
  show "\<forall>i. 0 \<le> i \<and> i < m_loadedTextures s \<longrightarrow> TEXTURE_INFO.tag (m_textureIDs s (nat i)) \<noteq> tg"
  proof (intro allI impI)
    fix i :: int
    assume "0 \<le> i \<and> i < m_loadedTextures s"
    then have "nat i < nat (m_loadedTextures s)" by linarith
    with a show "TEXTURE_INFO.tag (m_textureIDs s (nat i)) \<noteq> tg"
      by (auto simp: registered_tags_def)
  qed
next
  assume b: "\<forall>i. 0 \<le> i \<and> i < m_loadedTextures s \<longrightarrow> TEXTURE_INFO.tag (m_textureIDs s (nat i)) \<noteq> tg"
  show "tg \<notin> set (registered_tags s)"
  proof
    assume "tg \<in> set (registered_tags s)"
    then obtain j where j: "j < nat (m_loadedTextures s)" "TEXTURE_INFO.tag (m_textureIDs s j) = tg"
      by (auto simp: registered_tags_def)
    from j(1) have "0 \<le> int j \<and> int j < m_loadedTextures s" by linarith
    with b have "TEXTURE_INFO.tag (m_textureIDs s (nat (int j))) \<noteq> tg" by blast
    with j(2) show False by simp
  qed
qed

lemma FindTextureSlot_loop_missing:
  assumes "\<forall>i. 0 \<le> i \<and> i < m_loadedTextures s \<longrightarrow> TEXTURE_INFO.tag (m_textureIDs s (nat i)) \<noteq> tg"
    and "m_loadedTextures s \<le> 16" and "0 \<le> index"
  shows "FindTextureSlot_loop s tg textureSlot index bFound = Some textureSlot"
  using assms
proof (induction s tg textureSlot index bFound rule: FindTextureSlot_loop.induct)
  case (1 s tg textureSlot index bFound)
  show ?case
  proof (cases "index < m_loadedTextures s \<and> bFound = False")
    case True
    with "1.prems" have at: "texture_at s index = Some (m_textureIDs s (nat index))" by simp
    from True "1.prems" have ne: "TEXTURE_INFO.tag (m_textureIDs s (nat index)) \<noteq> tg" by blast
    from "1.IH"(2) [OF True at ne] "1.prems"
    have "FindTextureSlot_loop s tg textureSlot (index + 1) bFound = Some textureSlot" by simp
    with True at ne show ?thesis by (subst FindTextureSlot_loop.simps) simp
  next
    case False
    then show ?thesis by (subst FindTextureSlot_loop.simps) auto
  qed
qed

lemma FindTextureSlot_loop_found:
  assumes "0 \<le> index" and "index \<le> k" and "k < m_loadedTextures s" and "k < 16"
    and "TEXTURE_INFO.tag (m_textureIDs s (nat k)) = tg"
    and "\<forall>j. index \<le> j \<and> j < k \<longrightarrow> TEXTURE_INFO.tag (m_textureIDs s (nat j)) \<noteq> tg"
  shows "FindTextureSlot_loop s tg textureSlot index False = Some k"
  using assms
proof (induction "nat (k - index)" arbitrary: index textureSlot)
  case 0
  then have eq: "index = k" by simp
  have fin: "FindTextureSlot_loop s tg k k True = Some k"
    by (subst FindTextureSlot_loop.simps) simp
  from 0 eq have at: "texture_at s k = Some (m_textureIDs s (nat k))" by simp
  show ?case unfolding eq
    using "0.prems"(3,5) at fin by (subst FindTextureSlot_loop.simps) simp
next
  case (Suc n)
  then have lt: "index < k" by linarith
  with Suc.prems have at: "texture_at s index = Some (m_textureIDs s (nat index))" by simp
  from lt Suc.prems have ne: "TEXTURE_INFO.tag (m_textureIDs s (nat index)) \<noteq> tg" by simp
  have "n = nat (k - (index + 1))" using Suc.hyps(2) by linarith
  from Suc.hyps(1) [OF this] Suc.prems lt
  have "FindTextureSlot_loop s tg textureSlot (index + 1) False = Some k" by simp
  with lt Suc.prems at ne show ?case by (subst FindTextureSlot_loop.simps) simp
qed

text \<open>Claim C4. For a registry within its capacity (at most 16 loaded textures) and a
  tag that none of the registered textures carries, \<^verbatim>\<open>FindTextureSlot\<close> returns -1 and
  \<^verbatim>\<open>SetShaderTexture\<close> returns (no undefined behaviour); when a shader manager is attached,
  the two calls it has made set the uniform \<^verbatim>\<open>bUseTexture\<close> to true (the integer 1) and
  write the sentinel -1 to the sampler uniform \<^verbatim>\<open>objectTexture\<close>.\<close>

theorem SetShaderTexture_missing_tag:
  assumes "m_loadedTextures s \<le> 16" and "textureTag \<notin> set (registered_tags s)"
  shows "FindTextureSlot s textureTag = Some (- 1) \<and>
         SetShaderTexture textureTag s \<noteq> None \<and>
         (m_pShaderManager s \<noteq> NULL \<longrightarrow>
           (\<exists>s'. SetShaderTexture textureTag s = Some s' \<and>
              journal s' = journal s @
                [SetUniform ''bUseTexture'' (IntValue 1),
                 SetUniform ''objectTexture'' (Sampler2DValue (- 1))] \<and>
              uniforms (journal s') ''bUseTexture'' = Some (IntValue 1) \<and>
              uniforms (journal s') ''objectTexture'' = Some (Sampler2DValue (- 1))))"
proof -
  from assms(2) have miss:
    "\<forall>i. 0 \<le> i \<and> i < m_loadedTextures s \<longrightarrow> TEXTURE_INFO.tag (m_textureIDs s (nat i)) \<noteq> textureTag"
    by (simp add: registered_tags_iff)
  have find: "\<And>c. FindTextureSlot (emit c s) textureTag = Some (- 1)"
    unfolding FindTextureSlot_def
    by (rule FindTextureSlot_loop_missing) (use miss assms(1) in simp_all)
  have find0: "FindTextureSlot s textureTag = Some (- 1)"
    unfolding FindTextureSlot_def
    by (rule FindTextureSlot_loop_missing) (use miss assms(1) in simp_all)
  show ?thesis
  proof (cases "m_pShaderManager s = NULL")
    case True
    with find0 show ?thesis by (simp add: SetShaderTexture_def)
  next
    case False
    with find find0 show ?thesis
      by (simp add: SetShaderTexture_def setters g_UseTextureName_def g_TextureValueName_def)
  qed
qed

theorem SetShaderTexture_missing_tag_witness:
  "m_loadedTextures one_texture \<le> 16 \<and>
   ''nonexistent-tag'' \<notin> set (registered_tags one_texture) \<and>
   m_pShaderManager one_texture \<noteq> NULL \<and>
   FindTextureSlot one_texture ''nonexistent-tag'' = Some (- 1) \<and>
   (\<exists>s'. SetShaderTexture ''nonexistent-tag'' one_texture = Some s' \<and>
      uniforms (journal s') ''bUseTexture'' = Some (IntValue 1) \<and>
      uniforms (journal s') ''objectTexture'' = Some (Sampler2DValue (- 1)))"
proof -
  have a: "m_pShaderManager one_texture \<noteq> NULL" by (simp add: one_texture_def)
  have b: "m_loadedTextures one_texture \<le> 16" by (simp add: one_texture_def)
  have c: "''nonexistent-tag'' \<notin> set (registered_tags one_texture)"
    by (simp add: one_texture_def registered_tags_def)
  show ?thesis
    using a b c SetShaderTexture_missing_tag [OF b c] by auto
qed

subsection \<open>Failed registrations\<close>

lemma printed_append [simp]: "printed (cs @ ds) = printed cs @ printed ds"
  by (simp add: printed_def)

lemma printed_simps [simp]:
  "printed [] = []"
  "printed (Cout line # cs) = line # printed cs"
  "printed (SetUniform name v # cs) = printed cs"
  "printed (StbiSetFlipVerticallyOnLoad b # cs) = printed cs"
  "printed (StbiLoad file # cs) = printed cs"
  "printed (StbiImageFree # cs) = printed cs"
  "printed (GlGenTextures w # cs) = printed cs"
  "printed (GlBindTexture t w # cs) = printed cs"
  "printed (GlTexParameteri t1 t2 t3 # cs) = printed cs"
  "printed (GlTexImage2D a1 a2 a3 a4 a5 a6 a7 a8 # cs) = printed cs"
  "printed (GlGenerateMipmap t # cs) = printed cs"
  "printed (GlActiveTexture u # cs) = printed cs"
  "printed (LoadMesh k # cs) = printed cs"
  "printed (DrawMesh k # cs) = printed cs"
  by (simp_all add: printed_def)

lemma CreateGLTexture_unreadable:
  assumes "stbi_load_result E filename = None"
  shows "CreateGLTexture E filename tg s =
           Some (False, s\<lparr>journal := journal s @
             [StbiSetFlipVerticallyOnLoad True, StbiLoad filename,
              Cout [Str ''Could not load image:'', Str filename, Endl]]\<rparr>)"
  using assms by (simp add: CreateGLTexture_def stbi_load_def emit_def)

lemma CreateGLTexture_unsupported:
  assumes "stbi_load_result E filename = Some (w, h, c)" and "c \<noteq> 3" and "c \<noteq> 4"
  shows "\<exists>name. CreateGLTexture E filename tg s =
           Some (False, s\<lparr>journal := journal s @
             [StbiSetFlipVerticallyOnLoad True, StbiLoad filename,
              Cout [Str ''Successfully loaded image:'', Str filename, Str '', width:'', Num w,
                    Str '', height:'', Num h, Str '', channels:'', Num c, Endl],
              GlGenTextures name, GlBindTexture GL_TEXTURE_2D name,
              GlTexParameteri GL_TEXTURE_2D GL_TEXTURE_WRAP_S GL_REPEAT,
              GlTexParameteri GL_TEXTURE_2D GL_TEXTURE_WRAP_T GL_REPEAT,
              GlTexParameteri GL_TEXTURE_2D GL_TEXTURE_MIN_FILTER GL_LINEAR,
              GlTexParameteri GL_TEXTURE_2D GL_TEXTURE_MAG_FILTER GL_LINEAR,
              Cout [Str ''Not implemented to handle image with '', Num c, Str '' channels'', Endl]]\<rparr>)"
  using assms
  by (simp add: CreateGLTexture_def stbi_load_def glGenTextures_def emit_def Let_def) blast

lemma CreateGLTexture_register_view:
  "map_option (\<lambda>(b, r). (b, registry_view r)) (CreateGLTexture_register name tg s) =
     (if 0 \<le> m_loadedTextures s \<and> m_loadedTextures s < 16
      then Some (True, m_loadedTextures s + 1,
                 (\<lambda>i. TEXTURE_INFO.tag (m_textureIDs s i))(nat (m_loadedTextures s) := tg))
      else None)"
  by (auto simp: CreateGLTexture_register_def registry_view_def Let_def fun_eq_iff)

lemma CreateGLTexture_view:
  "map_option (\<lambda>(b, r). (b, registry_view r)) (CreateGLTexture E filename tg s) =
     (case stbi_load_result E filename of
        None \<Rightarrow> Some (False, registry_view s)
      | Some (w, h, c) \<Rightarrow>
          if c = 3 \<or> c = 4 then
            (if 0 \<le> m_loadedTextures s \<and> m_loadedTextures s < 16
             then Some (True, m_loadedTextures s + 1,
                        (snd (registry_view s))(nat (m_loadedTextures s) := tg))
             else None)
          else Some (False, registry_view s))"
proof (cases "stbi_load_result E filename")
  case None
  then show ?thesis
    by (simp add: CreateGLTexture_def stbi_load_def registry_view_def)
next
  case (Some whc)
  obtain w h c where whc: "whc = (w, h, c)" by (cases whc) auto
  consider "c = 3" | "c = 4" | "c \<noteq> 3 \<and> c \<noteq> 4" by blast
  then show ?thesis
  proof cases
    case 1
    with Some whc show ?thesis
      by (simp add: CreateGLTexture_def stbi_load_def glGenTextures_def Let_def
          CreateGLTexture_register_view)
         (simp add: registry_view_def)
  next
    case 2
    with Some whc show ?thesis
      by (simp add: CreateGLTexture_def stbi_load_def glGenTextures_def Let_def
          CreateGLTexture_register_view)
         (simp add: registry_view_def)
  next
    case 3
    with Some whc show ?thesis
      by (simp add: CreateGLTexture_def stbi_load_def glGenTextures_def Let_def
          registry_view_def)
  qed
qed

lemma CreateGLTexture_view_cong:
  assumes "registry_view a = registry_view b"
  shows "map_option (\<lambda>(b, r). (b, registry_view r)) (CreateGLTexture E filename tg a) =
         map_option (\<lambda>(b, r). (b, registry_view r)) (CreateGLTexture E filename tg b)"
proof -
  from assms have h: "m_loadedTextures a = m_loadedTextures b"
    by (simp add: registry_view_def)
  show ?thesis by (simp only: CreateGLTexture_view assms h)
qed

lemma CreateGLTexture_failure_aux:
  assumes r: "CreateGLTexture E filename tg s = Some (False, s\<lparr>journal := journal s @ cs\<rparr>)"
    and p: "printed cs \<noteq> []" and l: "last (printed cs) = msg"
  shows "\<exists>s'. CreateGLTexture E filename tg s = Some (False, s') \<and>
           m_textureIDs s' = m_textureIDs s \<and>
           m_loadedTextures s' = m_loadedTextures s \<and>
           m_objectMaterials s' = m_objectMaterials s \<and>
           length (printed (journal s')) > length (printed (journal s)) \<and>
           last (printed (journal s')) = msg \<and>
           (\<forall>filename' tg'.
              map_option (\<lambda>(b, r). (b, registry_view r)) (CreateGLTexture E filename' tg' s') =
              map_option (\<lambda>(b, r). (b, registry_view r)) (CreateGLTexture E filename' tg' s))"
proof -
  define s' where "s' = s\<lparr>journal := journal s @ cs\<rparr>"
  have v: "registry_view s' = registry_view s" by (simp add: s'_def registry_view_def)
  have "CreateGLTexture E filename tg s = Some (False, s')" using r by (simp add: s'_def)
  moreover have "m_textureIDs s' = m_textureIDs s" "m_loadedTextures s' = m_loadedTextures s"
    "m_objectMaterials s' = m_objectMaterials s" by (simp_all add: s'_def)
  moreover have "length (printed (journal s')) > length (printed (journal s))"
    using p by (simp add: s'_def)
  moreover have "last (printed (journal s')) = msg" using p l by (simp add: s'_def)
  moreover have "\<forall>filename' tg'.
              map_option (\<lambda>(b, r). (b, registry_view r)) (CreateGLTexture E filename' tg' s') =
              map_option (\<lambda>(b, r). (b, registry_view r)) (CreateGLTexture E filename' tg' s)"
    using CreateGLTexture_view_cong [OF v] by blast
  ultimately show ?thesis by blast
qed

text \<open>Claim C5. When the image cannot be decoded, or is decoded with a channel count other
  than 3 and 4, \<^verbatim>\<open>CreateGLTexture\<close> returns \<^verbatim>\<open>false\<close> (it does return: the process goes on),
  the entry array, the number of loaded textures and the material catalogue are unchanged,
  a line is printed whose text names the condition, and every later registration returns
  the same verdict and leaves the same count and tags as it would have without the failed
  call.\<close>

theorem CreateGLTexture_failure:
  assumes "stbi_load_result E filename = None \<or>
           (\<exists>w h c. stbi_load_result E filename = Some (w, h, c) \<and> c \<noteq> 3 \<and> c \<noteq> 4)"
  shows "\<exists>s'. CreateGLTexture E filename tg s = Some (False, s') \<and>
           m_textureIDs s' = m_textureIDs s \<and>
           m_loadedTextures s' = m_loadedTextures s \<and>
           m_objectMaterials s' = m_objectMaterials s \<and>
           length (printed (journal s')) > length (printed (journal s)) \<and>
           last (printed (journal s')) =
             (case stbi_load_result E filename of
                None \<Rightarrow> [Str ''Could not load image:'', Str filename, Endl]
              | Some (w, h, c) \<Rightarrow>
                  [Str ''Not implemented to handle image with '', Num c, Str '' channels'', Endl]) \<and>
           (\<forall>filename' tg'.
              map_option (\<lambda>(b, r). (b, registry_view r)) (CreateGLTexture E filename' tg' s') =
              map_option (\<lambda>(b, r). (b, registry_view r)) (CreateGLTexture E filename' tg' s))"
  using assms
proof
  assume a: "stbi_load_result E filename = None"
  show ?thesis
    by (rule CreateGLTexture_failure_aux [OF CreateGLTexture_unreadable [OF a]])
       (simp_all add: a)
next
  assume "\<exists>w h c. stbi_load_result E filename = Some (w, h, c) \<and> c \<noteq> 3 \<and> c \<noteq> 4"
  then obtain w h c where b: "stbi_load_result E filename = Some (w, h, c)" "c \<noteq> 3" "c \<noteq> 4"
    by blast
  from CreateGLTexture_unsupported [OF b] obtain cs where
    r: "CreateGLTexture E filename tg s = Some (False, s\<lparr>journal := journal s @ cs\<rparr>)"
    and p: "printed cs \<noteq> []"
    and l: "last (printed cs) =
              [Str ''Not implemented to handle image with '', Num c, Str '' channels'', Endl]"
    by fastforce
  show ?thesis
    by (rule CreateGLTexture_failure_aux [OF r p]) (simp add: b l)
qed

theorem CreateGLTexture_failure_witness:
  "(stbi_load_result no_files ''missing.jpg'' = None \<or>
     (\<exists>w h c. stbi_load_result no_files ''missing.jpg'' = Some (w, h, c) \<and> c \<noteq> 3 \<and> c \<noteq> 4)) \<and>
   (\<exists>s'. CreateGLTexture no_files ''missing.jpg'' ''t'' scene0 = Some (False, s') \<and>
      m_loadedTextures s' = 0 \<and>
      last (printed (journal s')) = [Str ''Could not load image:'', Str ''missing.jpg'', Endl])"
proof -
  have a: "stbi_load_result no_files ''missing.jpg'' = None \<or>
     (\<exists>w h c. stbi_load_result no_files ''missing.jpg'' = Some (w, h, c) \<and> c \<noteq> 3 \<and> c \<noteq> 4)"
    by (simp add: no_files_def)
  from CreateGLTexture_failure [OF a, of "''t''" scene0] a show ?thesis
    by (auto simp: no_files_def)
qed

subsection \<open>Slots of registered textures\<close>

lemma CreateGLTexture_True:
  assumes "CreateGLTexture E filename tg s = Some (True, s')"
  shows "0 \<le> m_loadedTextures s \<and> m_loadedTextures s < 16 \<and>
         m_loadedTextures s' = m_loadedTextures s + 1 \<and>
         (\<lambda>i. TEXTURE_INFO.tag (m_textureIDs s' i)) =
           (\<lambda>i. TEXTURE_INFO.tag (m_textureIDs s i))(nat (m_loadedTextures s) := tg)"
proof -
  from assms have
    "map_option (\<lambda>(b, r). (b, registry_view r)) (CreateGLTexture E filename tg s) =
       Some (True, registry_view s')" by simp
  then show ?thesis
    unfolding CreateGLTexture_view
    by (auto simp: registry_view_def split: option.splits if_splits)
qed

lemma register_all_view:
  "register_all E regs s = Some s' \<Longrightarrow> 0 \<le> m_loadedTextures s \<Longrightarrow>
   m_loadedTextures s' = m_loadedTextures s + int (length regs) \<and>
   (regs \<noteq> [] \<longrightarrow> m_loadedTextures s' \<le> 16) \<and>
   (\<forall>j. j < nat (m_loadedTextures s) \<longrightarrow>
      TEXTURE_INFO.tag (m_textureIDs s' j) = TEXTURE_INFO.tag (m_textureIDs s j)) \<and>
   (\<forall>k < length regs.
      TEXTURE_INFO.tag (m_textureIDs s' (nat (m_loadedTextures s) + k)) = snd (regs ! k))"
proof (induction regs arbitrary: s)
  case Nil
  then show ?case by simp
next
  case (Cons r rest)
  obtain filename tg where r: "r = (filename, tg)" by (cases r) auto
  from Cons.prems(1) r obtain s1 where
    c: "CreateGLTexture E filename tg s = Some (True, s1)" and
    rest: "register_all E rest s1 = Some s'"
    by (auto split: option.splits bool.splits)
  let ?n = "m_loadedTextures s"
  from CreateGLTexture_True [OF c] have
    n: "0 \<le> ?n" "?n < 16" and n1: "m_loadedTextures s1 = ?n + 1" and
    tags: "(\<lambda>i. TEXTURE_INFO.tag (m_textureIDs s1 i)) =
           (\<lambda>i. TEXTURE_INFO.tag (m_textureIDs s i))(nat ?n := tg)"
    by blast+
  have tag1: "\<And>i. TEXTURE_INFO.tag (m_textureIDs s1 i) =
                 (if i = nat ?n then tg else TEXTURE_INFO.tag (m_textureIDs s i))"
    using tags by (simp add: fun_eq_iff)
  from n1 n have pos1: "0 \<le> m_loadedTextures s1" by simp
  from Cons.IH [OF rest pos1] have
    ih1: "m_loadedTextures s' = m_loadedTextures s1 + int (length rest)" and
    ih2: "rest \<noteq> [] \<longrightarrow> m_loadedTextures s' \<le> 16" and
    ih3: "\<forall>j. j < nat (m_loadedTextures s1) \<longrightarrow>
            TEXTURE_INFO.tag (m_textureIDs s' j) = TEXTURE_INFO.tag (m_textureIDs s1 j)" and
    ih4: "\<forall>k < length rest.
            TEXTURE_INFO.tag (m_textureIDs s' (nat (m_loadedTextures s1) + k)) = snd (rest ! k)"
    by blast+
  have nat1: "nat (m_loadedTextures s1) = Suc (nat ?n)" using n1 n by simp
  have a: "m_loadedTextures s' = ?n + int (length (r # rest))"
    using ih1 n1 by simp
  have b: "m_loadedTextures s' \<le> 16"
  proof (cases "rest = []")
    case True
    with ih1 n1 n show ?thesis by simp
  next
    case False
    with ih2 show ?thesis by simp
  qed
  have c3: "\<forall>j. j < nat ?n \<longrightarrow>
      TEXTURE_INFO.tag (m_textureIDs s' j) = TEXTURE_INFO.tag (m_textureIDs s j)"
    using ih3 nat1 tag1 by simp
  have d: "\<forall>k < length (r # rest).
      TEXTURE_INFO.tag (m_textureIDs s' (nat ?n + k)) = snd ((r # rest) ! k)"
  proof (intro allI impI)
    fix k assume k: "k < length (r # rest)"
    show "TEXTURE_INFO.tag (m_textureIDs s' (nat ?n + k)) = snd ((r # rest) ! k)"
    proof (cases k)
      case 0
      with ih3 nat1 tag1 r show ?thesis by simp
    next
      case (Suc k')
      with k have "k' < length rest" by simp
      with ih4 have "TEXTURE_INFO.tag (m_textureIDs s' (nat (m_loadedTextures s1) + k')) = snd (rest ! k')"
        by blast
      with Suc nat1 show ?thesis by simp
    qed
  qed
  from a b c3 d show ?case by blast
qed

text \<open>What a run of registrations that all returned \<^verbatim>\<open>true\<close> leaves in a registry that
  was empty before: the \<open>k\<close>-th tag in slot \<open>k\<close>.\<close>

lemma register_all_slots:
  assumes "m_loadedTextures s = 0" and "distinct (map snd regs)"
    and "register_all E regs s = Some s'"
  shows "m_loadedTextures s' = int (length regs) \<and> length regs \<le> 16 \<and>
         registered_tags s' = map snd regs \<and>
         (\<forall>k < length regs.
            FindTextureSlot s' (snd (regs ! k)) = Some (int k) \<and> 0 \<le> int k \<and> int k < 16)"
proof -
  have all: "m_loadedTextures s' = int (length regs) \<and>
    (regs \<noteq> [] \<longrightarrow> m_loadedTextures s' \<le> 16) \<and>
    (\<forall>k < length regs. TEXTURE_INFO.tag (m_textureIDs s' k) = snd (regs ! k))"
    using register_all_view [OF assms(3)] assms(1) by auto
  then have
    len: "m_loadedTextures s' = int (length regs)" and
    cap: "regs \<noteq> [] \<longrightarrow> m_loadedTextures s' \<le> 16" and
    tags: "\<forall>k < length regs. TEXTURE_INFO.tag (m_textureIDs s' k) = snd (regs ! k)"
    by blast+
  have le: "length regs \<le> 16" using len cap by (cases "regs = []") simp_all
  have rt: "registered_tags s' = map snd regs"
    using len tags by (auto simp: registered_tags_def intro: nth_equalityI)
  have slots: "\<forall>k < length regs.
            FindTextureSlot s' (snd (regs ! k)) = Some (int k) \<and> 0 \<le> int k \<and> int k < 16"
  proof (intro allI impI)
    fix k assume k: "k < length regs"
    have other: "\<forall>j. 0 \<le> j \<and> j < int k \<longrightarrow>
        TEXTURE_INFO.tag (m_textureIDs s' (nat j)) \<noteq> snd (regs ! k)"
    proof (intro allI impI)
      fix j :: int assume j: "0 \<le> j \<and> j < int k"
      then have jk: "nat j < k" by linarith
      with k tags have "TEXTURE_INFO.tag (m_textureIDs s' (nat j)) = snd (regs ! nat j)" by simp
      moreover have "map snd regs ! nat j \<noteq> map snd regs ! k"
      proof -
        have "nat j < length (map snd regs)" "k < length (map snd regs)" "nat j \<noteq> k"
          using jk k by simp_all
        with assms(2) show ?thesis by (simp only: nth_eq_iff_index_eq not_False_eq_True)
      qed
      ultimately show "TEXTURE_INFO.tag (m_textureIDs s' (nat j)) \<noteq> snd (regs ! k)"
        using jk k by simp
    qed
    have "FindTextureSlot_loop s' (snd (regs ! k)) (- 1) 0 False = Some (int k)"
      by (rule FindTextureSlot_loop_found) (use k le len tags other in simp_all)
    with k le show
      "FindTextureSlot s' (snd (regs ! k)) = Some (int k) \<and> 0 \<le> int k \<and> int k < 16"
      by (simp add: FindTextureSlot_def)
  qed
  from len le rt slots show ?thesis by blast
qed

subsection \<open>Binding the textures\<close>

lemma bind_calls_cong:
  "m_textureIDs a = m_textureIDs b \<Longrightarrow> bind_calls a i n = bind_calls b i n"
  by (simp add: bind_calls_def)

lemma bind_calls_empty [simp]: "n \<le> i \<Longrightarrow> bind_calls s i n = []"
  by (simp add: bind_calls_def)

lemma bind_calls_first:
  "i < n \<Longrightarrow> bind_calls s i n =
     GlActiveTexture (GL_TEXTURE0 + int i) # GlBindTexture GL_TEXTURE_2D (ID (m_textureIDs s i)) #
     bind_calls s (Suc i) n"
  by (simp add: bind_calls_def upt_conv_Cons)

lemma bind_calls_last:
  "i \<le> n \<Longrightarrow> bind_calls s i (Suc n) =
     bind_calls s i n @
     [GlActiveTexture (GL_TEXTURE0 + int n), GlBindTexture GL_TEXTURE_2D (ID (m_textureIDs s n))]"
  by (simp add: bind_calls_def)

lemma BindGLTextures_loop_eq:
  "0 \<le> i \<Longrightarrow> m_loadedTextures s \<le> 16 \<Longrightarrow>
   BindGLTextures_loop i s =
     Some (s\<lparr>journal := journal s @ bind_calls s (nat i) (nat (m_loadedTextures s))\<rparr>)"
proof (induction i s rule: BindGLTextures_loop.induct)
  case (1 i s)
  show ?case
  proof (cases "i < m_loadedTextures s")
    case True
    let ?s1 = "emit (GlActiveTexture (GL_TEXTURE0 + i)) s"
    let ?s2 = "emit (GlBindTexture GL_TEXTURE_2D (ID (m_textureIDs s (nat i)))) ?s1"
    from True "1.prems" have at: "texture_at ?s1 i = Some (m_textureIDs s (nat i))"
      by (simp add: texture_at_def)
    have ih: "BindGLTextures_loop (i + 1) ?s2 =
        Some (?s2\<lparr>journal := journal ?s2 @ bind_calls ?s2 (nat (i + 1)) (nat (m_loadedTextures ?s2))\<rparr>)"
      using "1.IH" [OF True refl at] "1.prems" by simp
    have bc: "bind_calls ?s2 (nat (i + 1)) (nat (m_loadedTextures s)) =
              bind_calls s (Suc (nat i)) (nat (m_loadedTextures s))"
      using "1.prems" by (simp add: bind_calls_cong [of ?s2 s] nat_add_distrib)
    have first: "bind_calls s (nat i) (nat (m_loadedTextures s)) =
       GlActiveTexture (GL_TEXTURE0 + i) # GlBindTexture GL_TEXTURE_2D (ID (m_textureIDs s (nat i))) #
       bind_calls s (Suc (nat i)) (nat (m_loadedTextures s))"
      using True "1.prems" by (simp add: bind_calls_first)
    show ?thesis
      using True at ih bc
      by (subst BindGLTextures_loop.simps) (simp add: first emit_def)
  next
    case False
    then show ?thesis by (subst BindGLTextures_loop.simps) simp
  qed
qed

lemma texture_units_append:
  "texture_units (cs @ ds) = foldl texture_step (texture_units cs) ds"
  by (simp add: texture_units_def)

lemma texture_step_simps [simp]:
  "texture_step g (GlActiveTexture u) = (nat (u - GL_TEXTURE0), snd g)"
  "texture_step g (GlBindTexture target name) = (fst g, (snd g)(fst g := name))"
  by (simp_all add: texture_step_def)

lemma foldl_bind_calls:
  "i \<le> n \<Longrightarrow>
   foldl texture_step (a, m) (bind_calls s i n) =
     (if i < n then n - 1 else a, \<lambda>u. if i \<le> u \<and> u < n then ID (m_textureIDs s u) else m u)"
proof (induction n)
  case 0
  then show ?case by simp
next
  case (Suc n)
  show ?case
  proof (cases "i \<le> n")
    case True
    with Suc.IH show ?thesis
      by (auto simp: bind_calls_last fun_eq_iff)
  next
    case False
    with Suc.prems have "i = Suc n" by simp
    then show ?thesis by (auto simp: fun_eq_iff)
  qed
qed

text \<open>Claim C9. For a registry within its capacity, \<^verbatim>\<open>BindGLTextures\<close> called twice in
  succession returns both times and leaves OpenGL with the same selected unit and the same
  texture bound to every texture unit as after the first call: the texture of slot \<open>i\<close> is
  bound to unit \<open>i\<close>. The registry itself is not changed.\<close>

theorem BindGLTextures_idempotent:
  assumes "m_loadedTextures s \<le> 16"
  shows "\<exists>s1 s2. BindGLTextures s = Some s1 \<and> BindGLTextures s1 = Some s2 \<and>
           texture_units (journal s2) = texture_units (journal s1) \<and>
           (\<forall>i < nat (m_loadedTextures s).
              snd (texture_units (journal s1)) i = ID (m_textureIDs s i)) \<and>
           m_textureIDs s2 = m_textureIDs s \<and> m_loadedTextures s2 = m_loadedTextures s"
proof -
  let ?n = "nat (m_loadedTextures s)"
  let ?s1 = "s\<lparr>journal := journal s @ bind_calls s 0 ?n\<rparr>"
  let ?s2 = "?s1\<lparr>journal := journal ?s1 @ bind_calls s 0 ?n\<rparr>"
  have one: "BindGLTextures s = Some ?s1"
    using BindGLTextures_loop_eq [of 0 s] assms by (simp add: BindGLTextures_def)
  have two: "BindGLTextures ?s1 = Some ?s2"
    using BindGLTextures_loop_eq [of 0 ?s1] assms
    by (simp add: BindGLTextures_def bind_calls_cong [of ?s1 s])
  obtain a m where am: "texture_units (journal s) = (a, m)" by (cases "texture_units (journal s)")
  have u1: "texture_units (journal ?s1) =
      (if 0 < ?n then ?n - 1 else a, \<lambda>u. if u < ?n then ID (m_textureIDs s u) else m u)"
    by (simp add: texture_units_append am foldl_bind_calls)
  have j2: "journal ?s2 = journal ?s1 @ bind_calls s 0 ?n" by simp
  have "texture_units (journal ?s2) =
          foldl texture_step (texture_units (journal ?s1)) (bind_calls s 0 ?n)"
    unfolding j2 by (rule texture_units_append)
  also have "\<dots> = (if 0 < ?n then ?n - 1 else a, \<lambda>u. if u < ?n then ID (m_textureIDs s u) else m u)"
    unfolding u1 by (simp add: foldl_bind_calls fun_eq_iff)
  finally have u2: "texture_units (journal ?s2) = texture_units (journal ?s1)"
    unfolding u1 .
  from one two u1 u2 show ?thesis by (intro exI [of _ ?s1] exI [of _ ?s2]) simp
qed

theorem BindGLTextures_idempotent_witness:
  "m_loadedTextures one_texture \<le> 16 \<and>
   (\<exists>s1 s2. BindGLTextures one_texture = Some s1 \<and> BindGLTextures s1 = Some s2 \<and>
      texture_units (journal s2) = texture_units (journal s1) \<and>
      snd (texture_units (journal s1)) 0 = 7)"
proof -
  have a: "m_loadedTextures one_texture \<le> 16" by (simp add: one_texture_def)
  from BindGLTextures_idempotent [OF a] obtain s1 s2 where
    h: "BindGLTextures one_texture = Some s1" "BindGLTextures s1 = Some s2"
       "texture_units (journal s2) = texture_units (journal s1)"
       "\<forall>i < nat (m_loadedTextures one_texture).
              snd (texture_units (journal s1)) i = ID (m_textureIDs one_texture i)"
    by blast
  from h(4) have "snd (texture_units (journal s1)) 0 = 7"
    by (simp add: one_texture_def)
  with a h show ?thesis by blast
qed

subsection \<open>The render pass\<close>

lemma same_members_refl [simp]: "same_members s s"
  by (simp add: same_members_def)

lemma same_members_emit [simp]: "same_members s (emit c s)"
  by (simp add: same_members_def emit_def)

lemma same_members_journal [simp]: "same_members s (s\<lparr>journal := j\<rparr>)"
  by (simp add: same_members_def)

lemma same_members_trans: "same_members a b \<Longrightarrow> same_members b c \<Longrightarrow> same_members a c"
  by (metis (no_types, lifting) same_members_def SceneManager.surjective SceneManager.update_convs(7))

lemma same_members_renderable: "same_members a b \<Longrightarrow> renderable a \<Longrightarrow> renderable b"
  by (metis (no_types, lifting) same_members_def renderable_def SceneManager.select_convs(2,3,4)
      SceneManager.surjective SceneManager.update_convs(7))

lemma same_members_fields:
  assumes "same_members s s'"
  shows "m_textureIDs s' = m_textureIDs s" "m_loadedTextures s' = m_loadedTextures s"
    "m_objectMaterials s' = m_objectMaterials s" "m_pShaderManager s' = m_pShaderManager s"
    "m_basicMeshes s' = m_basicMeshes s" "lightPositions s' = lightPositions s"
proof -
  from assms have e: "s' = s\<lparr>journal := journal s'\<rparr>" by (simp add: same_members_def)
  show "m_textureIDs s' = m_textureIDs s" by (subst e) simp
  show "m_loadedTextures s' = m_loadedTextures s" by (subst e) simp
  show "m_objectMaterials s' = m_objectMaterials s" by (subst e) simp
  show "m_pShaderManager s' = m_pShaderManager s" by (subst e) simp
  show "m_basicMeshes s' = m_basicMeshes s" by (subst e) simp
  show "lightPositions s' = lightPositions s" by (subst e) simp
qed

lemma render_step_bind:
  assumes "render_step f" and "render_step g"
  shows "render_step (\<lambda>s. Option.bind (f s) g)"
  unfolding render_step_def
proof (intro conjI allI impI)
  fix s s' assume "Option.bind (f s) g = Some s'"
  then obtain t where t: "f s = Some t" "g t = Some s'"
    by (cases "f s") auto
  with assms show "same_members s s'"
    unfolding render_step_def by (blast intro: same_members_trans)
next
  fix s assume r: "renderable s"
  with assms(1) obtain t where t: "f s = Some t" unfolding render_step_def by fastforce
  with assms(1) have "same_members s t" unfolding render_step_def by blast
  with r have "renderable t" by (rule same_members_renderable [rotated])
  with assms(2) have "g t \<noteq> None" unfolding render_step_def by blast
  with t show "Option.bind (f s) g \<noteq> None" by simp
qed

lemma render_step_Some: "render_step Some"
  by (simp add: render_step_def)

lemma render_step_pointwise:
  assumes "\<And>s. \<exists>cs. f s = Some (s\<lparr>journal := journal s @ cs\<rparr>) \<or> (f s = None \<and> \<not> renderable s)"
  shows "render_step f"
  unfolding render_step_def
proof (intro conjI allI impI)
  fix s s' assume "f s = Some s'"
  with assms [of s] show "same_members s s'" by auto
next
  fix s assume "renderable s"
  with assms [of s] show "f s \<noteq> None" by auto
qed

lemma FindTextureSlot_loop_total:
  "m_loadedTextures s \<le> 16 \<Longrightarrow> 0 \<le> index \<Longrightarrow>
   FindTextureSlot_loop s tg textureSlot index bFound \<noteq> None"
proof (induction s tg textureSlot index bFound rule: FindTextureSlot_loop.induct)
  case (1 s tg textureSlot index bFound)
  show ?case
  proof (cases "index < m_loadedTextures s \<and> bFound = False")
    case True
    with "1.prems" have at: "texture_at s index = Some (m_textureIDs s (nat index))" by simp
    show ?thesis
    proof (cases "TEXTURE_INFO.tag (m_textureIDs s (nat index)) = tg")
      case eq: True
      have "FindTextureSlot_loop s tg index index True = Some index"
        by (subst FindTextureSlot_loop.simps) simp
      with True at eq show ?thesis by (subst FindTextureSlot_loop.simps) simp
    next
      case ne: False
      from "1.IH"(2) [OF True at ne] "1.prems"
      have "FindTextureSlot_loop s tg textureSlot (index + 1) bFound \<noteq> None" by simp
      with True at ne show ?thesis by (subst FindTextureSlot_loop.simps) simp
    qed
  next
    case False
    then show ?thesis by (subst FindTextureSlot_loop.simps) auto
  qed
qed

lemma render_step_SetTransformations:
  "render_step (\<lambda>s. SetTransformations scaleXYZ x y z (p s) s)"
proof (rule render_step_pointwise)
  fix s
  show "\<exists>cs. SetTransformations scaleXYZ x y z (p s) s = Some (s\<lparr>journal := journal s @ cs\<rparr>) \<or>
          (SetTransformations scaleXYZ x y z (p s) s = None \<and> \<not> renderable s)"
  proof (cases "m_pShaderManager s = NULL")
    case True
    then have "SetTransformations scaleXYZ x y z (p s) s = Some (s\<lparr>journal := journal s @ []\<rparr>)"
      by (simp add: SetTransformations_NULL)
    then show ?thesis by blast
  next
    case False
    then show ?thesis by (simp add: SetTransformations_Some emit_def) blast
  qed
qed

lemma render_step_SetShaderColor: "render_step (SetShaderColor r g b a)"
proof (rule render_step_pointwise)
  fix s
  show "\<exists>cs. SetShaderColor r g b a s = Some (s\<lparr>journal := journal s @ cs\<rparr>) \<or>
          (SetShaderColor r g b a s = None \<and> \<not> renderable s)"
  proof (cases "m_pShaderManager s = NULL")
    case True
    then have "SetShaderColor r g b a s = Some (s\<lparr>journal := journal s @ []\<rparr>)"
      by (simp add: SetShaderColor_NULL)
    then show ?thesis by blast
  next
    case False
    then show ?thesis by (simp add: SetShaderColor_Some emit_def) blast
  qed
qed

lemma render_step_SetShaderMaterial: "render_step (SetShaderMaterial u materialTag)"
proof (rule render_step_pointwise)
  fix s
  show "\<exists>cs. SetShaderMaterial u materialTag s = Some (s\<lparr>journal := journal s @ cs\<rparr>) \<or>
          (SetShaderMaterial u materialTag s = None \<and> \<not> renderable s)"
  proof (cases "m_objectMaterials s = []")
    case True
    then have "SetShaderMaterial u materialTag s = Some (s\<lparr>journal := journal s @ []\<rparr>)"
      by (simp add: SetShaderMaterial_empty)
    then show ?thesis by blast
  next
    case ne: False
    show ?thesis
    proof (cases "m_pShaderManager s = NULL")
      case True
      with ne have "SetShaderMaterial u materialTag s = None"
        by (simp add: SetShaderMaterial_def FindMaterial_def setters)
      with True show ?thesis by (simp add: renderable_def)
    next
      case False
      with ne show ?thesis
        by (simp add: SetShaderMaterial_def FindMaterial_def setters emit_def) blast
    qed
  qed
qed

lemma render_step_SetShaderTexture: "render_step (SetShaderTexture textureTag)"
proof (rule render_step_pointwise)
  fix s
  show "\<exists>cs. SetShaderTexture textureTag s = Some (s\<lparr>journal := journal s @ cs\<rparr>) \<or>
          (SetShaderTexture textureTag s = None \<and> \<not> renderable s)"
  proof (cases "m_pShaderManager s = NULL")
    case True
    then have "SetShaderTexture textureTag s = Some (s\<lparr>journal := journal s @ []\<rparr>)"
      by (simp add: SetShaderTexture_def)
    then show ?thesis by blast
  next
    case sh: False
    let ?s1 = "emit (SetUniform g_UseTextureName (IntValue 1)) s"
    show ?thesis
    proof (cases "FindTextureSlot ?s1 textureTag")
      case None
      have "\<not> m_loadedTextures ?s1 \<le> 16"
        using FindTextureSlot_loop_total [of ?s1 0 textureTag "- 1" False] None
        by (auto simp: FindTextureSlot_def)
      moreover from sh None have "SetShaderTexture textureTag s = None"
        by (simp add: SetShaderTexture_def setters)
      ultimately show ?thesis by (simp add: renderable_def)
    next
      case (Some slot)
      with sh show ?thesis
        by (simp add: SetShaderTexture_def setters emit_def) blast
    qed
  qed
qed

lemma render_step_mesh_call: "render_step (mesh_call c)"
proof (rule render_step_pointwise)
  fix s
  show "\<exists>cs. mesh_call c s = Some (s\<lparr>journal := journal s @ cs\<rparr>) \<or>
          (mesh_call c s = None \<and> \<not> renderable s)"
  proof (cases "m_basicMeshes s = NULL")
    case True
    then show ?thesis by (simp add: mesh_call_def renderable_def)
  next
    case False
    then show ?thesis by (simp add: mesh_call_def emit_def) blast
  qed
qed

lemmas render_step_Draw =
  render_step_mesh_call [of "DrawMesh BoxMesh", folded DrawBoxMesh_def]
  render_step_mesh_call [of "DrawMesh PlaneMesh", folded DrawPlaneMesh_def]
  render_step_mesh_call [of "DrawMesh CylinderMesh", folded DrawCylinderMesh_def]
  render_step_mesh_call [of "DrawMesh PrismMesh", folded DrawPrismMesh_def]
  render_step_mesh_call [of "DrawMesh SphereMesh", folded DrawSphereMesh_def]
  render_step_mesh_call [of "DrawMesh TaperedCylinderMesh", folded DrawTaperedCylinderMesh_def]
  render_step_mesh_call [of "DrawMesh TorusMesh", folded DrawTorusMesh_def]

lemmas render_step_rules =
  render_step_bind render_step_Some render_step_SetTransformations render_step_SetShaderColor
  render_step_SetShaderMaterial render_step_SetShaderTexture render_step_Draw

lemma render_step_loop:
  "render_step (RenderScene_loop uninitialised cubeColors x y z i)"
proof (induction "nat (4 - i)" arbitrary: i)
  case 0
  then have "\<not> i < 4" by simp
  then have "RenderScene_loop uninitialised cubeColors x y z i = Some"
    by (intro ext, subst RenderScene_loop.simps) simp
  then show ?case by (simp add: render_step_Some)
next
  case (Suc n)
  then have lt: "i < 4" and n: "n = nat (4 - (i + 1))" by linarith+
  have eq: "RenderScene_loop uninitialised cubeColors x y z i =
    (\<lambda>s. Option.bind (SetTransformations (15, 15, 15) x y z (lightPositions s (nat i)) s)
      (\<lambda>s. Option.bind (SetShaderMaterial (uninitialised (39 + nat i)) ''porcelaine'' s)
      (\<lambda>s. Option.bind (SetShaderColor (fst (cubeColors ! nat i)) (fst (snd (cubeColors ! nat i)))
               (snd (snd (cubeColors ! nat i))) 1 s)
      (\<lambda>s. Option.bind (DrawBoxMesh s)
      (RenderScene_loop uninitialised cubeColors x y z (i + 1))))))"
    using lt by (intro ext, subst RenderScene_loop.simps) (simp add: Let_def)
  show ?case
    unfolding eq by (intro render_step_rules Suc.hyps(1) [OF n])
qed

lemma render_step_RenderScene: "render_step (RenderScene uninitialised)"
proof -
  have "render_step (\<lambda>s. RenderScene uninitialised s)"
    unfolding RenderScene_def Let_def
    by (intro render_step_rules render_step_loop)
  then show ?thesis .
qed

text \<open>Claim C10. \<^verbatim>\<open>RenderScene\<close> never changes the registries: whenever it returns, the
  texture entry array, the number of loaded textures and the material catalogue are as
  they were before the call, whatever the uninitialised locals held. It does return in
  every renderable state. Each setter it calls (\<^verbatim>\<open>SetTransformations\<close>,
  \<^verbatim>\<open>SetShaderMaterial\<close>, \<^verbatim>\<open>SetShaderTexture\<close>, \<^verbatim>\<open>SetShaderColor\<close>) and each draw call is
  a render step, so it only reads the data members.\<close>

theorem RenderScene_keeps_registries:
  "(\<forall>s'. RenderScene uninitialised s = Some s' \<longrightarrow>
      m_textureIDs s' = m_textureIDs s \<and> m_loadedTextures s' = m_loadedTextures s \<and>
      m_objectMaterials s' = m_objectMaterials s) \<and>
   (renderable s \<longrightarrow> (\<exists>s'. RenderScene uninitialised s = Some s'))"
  using render_step_RenderScene [of uninitialised]
  by (auto simp: render_step_def dest: same_members_fields)

subsection \<open>Preparing the scene\<close>

lemma LoadSceneTextures_table:
  "LoadSceneTextures E s = Option.bind (register_each E scene_textures s) BindGLTextures"
  by (simp add: LoadSceneTextures_def scene_textures_def split: option.splits prod.splits)

lemma files_loaded_simps [simp]:
  "files_loaded [] = []"
  "files_loaded (cs @ ds) = files_loaded cs @ files_loaded ds"
  "files_loaded (StbiLoad file # cs) = file # files_loaded cs"
  "files_loaded (SetUniform name v # cs) = files_loaded cs"
  "files_loaded (StbiSetFlipVerticallyOnLoad b # cs) = files_loaded cs"
  "files_loaded (StbiImageFree # cs) = files_loaded cs"
  "files_loaded (GlGenTextures w # cs) = files_loaded cs"
  "files_loaded (GlBindTexture t w # cs) = files_loaded cs"
  "files_loaded (GlTexParameteri t1 t2 t3 # cs) = files_loaded cs"
  "files_loaded (GlTexImage2D a1 a2 a3 a4 a5 a6 a7 a8 # cs) = files_loaded cs"
  "files_loaded (GlGenerateMipmap t # cs) = files_loaded cs"
  "files_loaded (GlActiveTexture u # cs) = files_loaded cs"
  "files_loaded (Cout line # cs) = files_loaded cs"
  "files_loaded (LoadMesh k # cs) = files_loaded cs"
  "files_loaded (DrawMesh k # cs) = files_loaded cs"
  by (simp_all add: files_loaded_def)

lemma SetupSceneLights_journal:
  assumes "m_pShaderManager s \<noteq> NULL"
  shows "\<exists>s' L. SetupSceneLights s = Some s' \<and> journal s' = journal s @ L \<and>
           length L = 31 \<and> list_all is_light_call L \<and>
           m_pShaderManager s' = m_pShaderManager s \<and> m_basicMeshes s' = m_basicMeshes s \<and>
           m_loadedTextures s' = m_loadedTextures s \<and> m_textureIDs s' = m_textureIDs s \<and>
           m_objectMaterials s' = m_objectMaterials s"
  using assms
  by (simp add: SetupSceneLights_def setters emit_def g_UseLightingName_def)

lemma CreateGLTexture_journal:
  assumes "CreateGLTexture E filename tg s = Some (b, s')"
  shows "\<exists>T. journal s' = journal s @ T \<and> list_all is_registration_call T \<and>
           files_loaded T = [filename] \<and> other_members s' = other_members s"
proof (cases "stbi_load_result E filename")
  case None
  with assms show ?thesis
    by (auto simp: CreateGLTexture_def stbi_load_def emit_def other_members_def)
next
  case (Some whc)
  obtain w h c where whc: "whc = (w, h, c)" by (cases whc) auto
  consider "c = 3" | "c = 4" | "c \<noteq> 3 \<and> c \<noteq> 4" by blast
  then show ?thesis
  proof cases
    case 1
    with Some whc assms show ?thesis
      by (auto simp: CreateGLTexture_def CreateGLTexture_register_def stbi_load_def glGenTextures_def
          Let_def emit_def other_members_def split: if_splits)
  next
    case 2
    with Some whc assms show ?thesis
      by (auto simp: CreateGLTexture_def CreateGLTexture_register_def stbi_load_def glGenTextures_def
          Let_def emit_def other_members_def split: if_splits)
  next
    case 3
    with Some whc assms show ?thesis
      by (auto simp: CreateGLTexture_def stbi_load_def glGenTextures_def
          Let_def emit_def other_members_def)
  qed
qed

lemma registered_tags_view:
  "registered_tags s = map (snd (registry_view s)) [0..<nat (fst (registry_view s))]"
  by (simp add: registered_tags_def registry_view_def)

lemma CreateGLTexture_tags:
  assumes "CreateGLTexture E filename tg s = Some (b, s')" and "0 \<le> m_loadedTextures s"
  shows "b = decodable E filename \<and>
         m_loadedTextures s' = m_loadedTextures s + (if b then 1 else 0) \<and>
         registered_tags s' = registered_tags s @ (if b then [tg] else [])"
proof -
  from assms(1) have
    v: "map_option (\<lambda>(b, r). (b, registry_view r)) (CreateGLTexture E filename tg s) =
       Some (b, registry_view s')" by simp
  show ?thesis
  proof (cases "decodable E filename")
    case True
    with v have "b = True \<and> registry_view s' =
        (m_loadedTextures s + 1, (snd (registry_view s))(nat (m_loadedTextures s) := tg))"
      unfolding CreateGLTexture_view
      by (auto simp: decodable_def split: option.splits if_splits)
    with True assms(2) show ?thesis
      by (simp add: registered_tags_view [of s'] nat_add_distrib)
         (simp add: registered_tags_def registry_view_def)
  next
    case False
    with v have "b = False \<and> registry_view s' = registry_view s"
      unfolding CreateGLTexture_view
      by (auto simp: decodable_def split: option.splits if_splits)
    with False show ?thesis
      by (simp add: registered_tags_view [of s']) (simp add: registered_tags_view registry_view_def)
  qed
qed

lemma CreateGLTexture_defined:
  assumes "0 \<le> m_loadedTextures s" and "m_loadedTextures s < 16"
  shows "CreateGLTexture E filename tg s \<noteq> None"
proof
  assume "CreateGLTexture E filename tg s = None"
  then have "map_option (\<lambda>(b, r). (b, registry_view r)) (CreateGLTexture E filename tg s) = None"
    by simp
  with assms show False
    unfolding CreateGLTexture_view by (auto split: option.splits if_splits)
qed

lemma register_each_journal:
  "0 \<le> m_loadedTextures s \<Longrightarrow> m_loadedTextures s + int (length regs) \<le> 16 \<Longrightarrow>
   \<exists>s' T. register_each E regs s = Some s' \<and> journal s' = journal s @ T \<and>
     list_all is_registration_call T \<and> files_loaded T = map fst regs \<and>
     registered_tags s' = registered_tags s @ map snd (filter (\<lambda>r. decodable E (fst r)) regs) \<and>
     m_loadedTextures s \<le> m_loadedTextures s' \<and>
     m_loadedTextures s' \<le> m_loadedTextures s + int (length regs) \<and>
     other_members s' = other_members s"
proof (induction regs arbitrary: s)
  case Nil
  then show ?case by simp
next
  case (Cons r rest)
  obtain filename tg where r: "r = (filename, tg)" by (cases r) auto
  from Cons.prems have "m_loadedTextures s < 16" by simp
  from CreateGLTexture_defined [OF Cons.prems(1) this] obtain b s1 where
    c: "CreateGLTexture E filename tg s = Some (b, s1)" by fastforce
  from CreateGLTexture_journal [OF c] obtain T1 where
    j1: "journal s1 = journal s @ T1" "list_all is_registration_call T1"
        "files_loaded T1 = [filename]" "other_members s1 = other_members s" by blast
  from CreateGLTexture_tags [OF c Cons.prems(1)] have
    t1: "b = decodable E filename" "m_loadedTextures s1 = m_loadedTextures s + (if b then 1 else 0)"
        "registered_tags s1 = registered_tags s @ (if b then [tg] else [])" by blast+
  have p1: "0 \<le> m_loadedTextures s1" "m_loadedTextures s1 + int (length rest) \<le> 16"
    using t1(2) Cons.prems by (simp_all split: if_splits)
  from Cons.IH [OF p1] obtain s' T where
    ih: "register_each E rest s1 = Some s'" "journal s' = journal s1 @ T"
        "list_all is_registration_call T" "files_loaded T = map fst rest"
        "registered_tags s' = registered_tags s1 @ map snd (filter (\<lambda>r. decodable E (fst r)) rest)"
        "m_loadedTextures s1 \<le> m_loadedTextures s'"
        "m_loadedTextures s' \<le> m_loadedTextures s1 + int (length rest)"
        "other_members s' = other_members s1" by blast
  have "register_each E (r # rest) s = Some s'" using r c ih(1) by simp
  moreover have "journal s' = journal s @ (T1 @ T)" using j1(1) ih(2) by simp
  moreover have "list_all is_registration_call (T1 @ T)" using j1(2) ih(3) by simp
  moreover have "files_loaded (T1 @ T) = map fst (r # rest)" using j1(3) ih(4) r by simp
  moreover have "registered_tags s' =
      registered_tags s @ map snd (filter (\<lambda>r. decodable E (fst r)) (r # rest))"
    using ih(5) t1(1,3) r by simp
  moreover have "m_loadedTextures s \<le> m_loadedTextures s'"
    using ih(6) t1(2) by (simp split: if_splits)
  moreover have "m_loadedTextures s' \<le> m_loadedTextures s + int (length (r # rest))"
    using ih(7) t1(2) by (simp split: if_splits)
  moreover have "other_members s' = other_members s" using ih(8) j1(4) by simp
  ultimately show ?case by blast
qed

lemma files_loaded_lights: "list_all is_light_call L \<Longrightarrow> files_loaded L = []"
proof (induction L)
  case Nil
  then show ?case by simp
next
  case (Cons c L)
  then show ?case by (cases c) simp_all
qed

lemma files_loaded_bind_calls [simp]: "files_loaded (bind_calls s i n) = []"
proof (induction n)
  case 0
  then show ?case by simp
next
  case (Suc n)
  show ?case
  proof (cases "i \<le> n")
    case True
    with Suc show ?thesis by (simp add: bind_calls_last)
  next
    case False
    then show ?thesis by simp
  qed
qed

lemma files_loaded_meshes [simp]: "files_loaded (map LoadMesh ms) = []"
  by (induction ms) simp_all

lemma load_meshes:
  assumes "m_basicMeshes s \<noteq> NULL"
  shows "Option.bind (LoadBoxMesh s) (\<lambda>s. Option.bind (LoadPlaneMesh s)
          (\<lambda>s. Option.bind (LoadCylinderMesh s) (\<lambda>s. Option.bind (LoadConeMesh s)
          (\<lambda>s. Option.bind (LoadPrismMesh s) (\<lambda>s. Option.bind (LoadPyramid4Mesh s)
          (\<lambda>s. Option.bind (LoadSphereMesh s) (\<lambda>s. Option.bind (LoadTaperedCylinderMesh s)
          (\<lambda>s. Option.bind (LoadTorusMesh s) Some)))))))) =
         Some (s\<lparr>journal := journal s @ map LoadMesh scene_meshes\<rparr>)"
  using assms
  by (simp add: LoadBoxMesh_def LoadPlaneMesh_def LoadCylinderMesh_def LoadConeMesh_def
      LoadPrismMesh_def LoadPyramid4Mesh_def LoadSphereMesh_def LoadTaperedCylinderMesh_def
      LoadTorusMesh_def mesh_call_def emit_def scene_meshes_def)

lemma PrepareScene_journal:
  assumes sh: "m_pShaderManager s \<noteq> NULL" and me: "m_basicMeshes s \<noteq> NULL"
    and lo: "0 \<le> m_loadedTextures s" and hi: "m_loadedTextures s \<le> 2"
  shows "\<exists>s' L T. PrepareScene E s = Some s' \<and>
           journal s' = journal s @ L @ T @ bind_calls s' 0 (nat (m_loadedTextures s')) @
                          map LoadMesh scene_meshes \<and>
           length L = 31 \<and> list_all is_light_call L \<and>
           list_all is_registration_call T \<and> files_loaded T = map fst scene_textures \<and>
           registered_tags s' =
             registered_tags s @ map snd (filter (\<lambda>r. decodable E (fst r)) scene_textures) \<and>
           m_objectMaterials s' = m_objectMaterials s @ seed_catalogue"
proof -
  from SetupSceneLights_journal [OF sh] obtain s1 L where
    l: "SetupSceneLights s = Some s1" "journal s1 = journal s @ L" "length L = 31"
       "list_all is_light_call L" "m_pShaderManager s1 = m_pShaderManager s"
       "m_basicMeshes s1 = m_basicMeshes s" "m_loadedTextures s1 = m_loadedTextures s"
       "m_textureIDs s1 = m_textureIDs s" "m_objectMaterials s1 = m_objectMaterials s"
    by blast
  define s2 where "s2 = DefineObjectMaterials s1"
  have len: "length scene_textures = 14" by (simp add: scene_textures_def)
  have rt2: "registered_tags s2 = registered_tags s"
    using l(7,8) by (simp add: s2_def registered_tags_def)
  have p2: "0 \<le> m_loadedTextures s2" "m_loadedTextures s2 + int (length scene_textures) \<le> 16"
    using lo hi l(7) len by (simp_all add: s2_def)
  from register_each_journal [OF p2, of E] obtain s3 T where
    r: "register_each E scene_textures s2 = Some s3" "journal s3 = journal s2 @ T"
       "list_all is_registration_call T" "files_loaded T = map fst scene_textures"
       "registered_tags s3 =
          registered_tags s2 @ map snd (filter (\<lambda>r. decodable E (fst r)) scene_textures)"
       "m_loadedTextures s2 \<le> m_loadedTextures s3"
       "m_loadedTextures s3 \<le> m_loadedTextures s2 + int (length scene_textures)"
       "other_members s3 = other_members s2"
    by blast
  have cap3: "m_loadedTextures s3 \<le> 16" using r(7) p2(2) by simp
  define s4 where "s4 = s3\<lparr>journal := journal s3 @ bind_calls s3 0 (nat (m_loadedTextures s3))\<rparr>"
  have b: "BindGLTextures s3 = Some s4"
    using BindGLTextures_loop_eq [of 0 s3] cap3 by (simp add: BindGLTextures_def s4_def)
  have me4: "m_basicMeshes s4 \<noteq> NULL"
    using r(8) l(6) me by (simp add: s4_def other_members_def s2_def)
  define s' where "s' = s4\<lparr>journal := journal s4 @ map LoadMesh scene_meshes\<rparr>"
  have run: "PrepareScene E s = Some s'"
    unfolding PrepareScene_def LoadSceneTextures_table Let_def
    using l(1) r(1) b load_meshes [OF me4]
    by (simp add: s2_def [symmetric] s'_def)
  have bc: "bind_calls s' 0 (nat (m_loadedTextures s')) = bind_calls s3 0 (nat (m_loadedTextures s3))"
    by (simp add: s'_def s4_def bind_calls_def)
  have j: "journal s' = journal s @ L @ T @ bind_calls s' 0 (nat (m_loadedTextures s')) @
                          map LoadMesh scene_meshes"
    unfolding bc using r(2) l(2) by (simp add: s'_def s4_def s2_def)
  have rt: "registered_tags s' =
      registered_tags s @ map snd (filter (\<lambda>r. decodable E (fst r)) scene_textures)"
    using r(5) rt2 by (simp add: s'_def s4_def registered_tags_def)
  have ms: "m_objectMaterials s' = m_objectMaterials s @ seed_catalogue"
    using r(8) l(9) by (simp add: s'_def s4_def other_members_def s2_def DefineObjectMaterials_appends)
  from run j l(3,4) r(3,4) rt ms show ?thesis by blast
qed

lemma PrepareScene_files:
  assumes "m_pShaderManager s \<noteq> NULL" and "m_basicMeshes s \<noteq> NULL"
    and "0 \<le> m_loadedTextures s" and "m_loadedTextures s \<le> 2"
  shows "PrepareScene E s \<noteq> None \<and>
         files_loaded (journal (the (PrepareScene E s))) =
           files_loaded (journal s) @ map fst scene_textures"
proof -
  from PrepareScene_journal [OF assms, of E] obtain s' L T where
    h: "PrepareScene E s = Some s'"
       "journal s' = journal s @ L @ T @ bind_calls s' 0 (nat (m_loadedTextures s')) @
                          map LoadMesh scene_meshes"
       "list_all is_light_call L" "files_loaded T = map fst scene_textures"
    by blast
  from h(2,3,4) have "files_loaded (journal s') = files_loaded (journal s) @ map fst scene_textures"
    by (simp add: files_loaded_lights)
  with h(1) show ?thesis by simp
qed

text \<open>Claim C7, amended. On a scene manager with a shader manager and a mesh object
  attached and room for fourteen textures, \<^verbatim>\<open>PrepareScene\<close> returns, and the calls it has
  made on its collaborators are, in this order: the 31 uniform writes of the light
  configuration; the calls of the texture registrations, which ask the decoder for the 14
  files of \<open>scene_textures\<close> in order and select no texture unit; one binding pass over the
  loaded textures; the preparation of the nine primitive meshes, each once. The material
  catalogue has grown by the five seeded materials, once, and the registry by the tags of
  the decodable files, in order.\<close>

theorem PrepareScene_order:
  assumes "m_pShaderManager s \<noteq> NULL" and "m_basicMeshes s \<noteq> NULL"
    and "0 \<le> m_loadedTextures s" and "m_loadedTextures s \<le> 2"
  shows "\<exists>s' L T. PrepareScene E s = Some s' \<and>
           journal s' = journal s @ L @ T @ bind_calls s' 0 (nat (m_loadedTextures s')) @
                          map LoadMesh scene_meshes \<and>
           length L = 31 \<and> list_all is_light_call L \<and>
           list_all is_registration_call T \<and> files_loaded T = map fst scene_textures \<and>
           length scene_textures = 14 \<and>
           registered_tags s' =
             registered_tags s @ map snd (filter (\<lambda>r. decodable E (fst r)) scene_textures) \<and>
           m_objectMaterials s' = m_objectMaterials s @ seed_catalogue"
proof -
  have "length scene_textures = 14" by (simp add: scene_textures_def)
  with PrepareScene_journal [OF assms, of E] show ?thesis by blast
qed

theorem PrepareScene_order_witness:
  "m_pShaderManager scene0 \<noteq> NULL \<and> m_basicMeshes scene0 \<noteq> NULL \<and>
   0 \<le> m_loadedTextures scene0 \<and> m_loadedTextures scene0 \<le> 2 \<and>
   (\<exists>s'. PrepareScene no_files scene0 = Some s' \<and>
      m_objectMaterials s' = seed_catalogue \<and> registered_tags s' = [])"
proof -
  have a: "m_pShaderManager scene0 \<noteq> NULL" "m_basicMeshes scene0 \<noteq> NULL"
    "0 \<le> m_loadedTextures scene0" "m_loadedTextures scene0 \<le> 2" by simp_all
  have d: "\<And>f. \<not> decodable no_files f" by (simp add: decodable_def no_files_def)
  from PrepareScene_order [OF a, of no_files] obtain s' where
    "PrepareScene no_files scene0 = Some s'"
    "registered_tags s' =
       registered_tags scene0 @ map snd (filter (\<lambda>r. decodable no_files (fst r)) scene_textures)"
    "m_objectMaterials s' = m_objectMaterials scene0 @ seed_catalogue"
    by blast
  then have "PrepareScene no_files scene0 = Some s' \<and>
      m_objectMaterials s' = seed_catalogue \<and> registered_tags s' = []"
    by (simp add: d registered_tags_def)
  with a show ?thesis by blast
qed

text \<open>Claim C7 as stated speaks of 11 registered tag/file pairs. On a freshly constructed
  scene manager, in a world where no file decodes, \<^verbatim>\<open>PrepareScene\<close> returns and has asked
  the decoder for 14 files, not 11.\<close>

theorem PrepareScene_registers_fourteen:
  "PrepareScene no_files scene0 \<noteq> None \<and>
   length (files_loaded (journal (the (PrepareScene no_files scene0)))) = 14 \<and>
   length (files_loaded (journal (the (PrepareScene no_files scene0)))) \<noteq> 11"
  using PrepareScene_files [of scene0 no_files]
  by (simp add: scene_textures_def)

theorem RenderScene_keeps_registries_witness:
  "renderable one_texture \<and>
   (\<exists>s'. RenderScene (\<lambda>n. zero_material) one_texture = Some s' \<and>
      m_loadedTextures s' = 1 \<and> m_objectMaterials s' = [] \<and>
      registered_tags s' = [''metal_table''])"
proof -
  have r: "renderable one_texture" by (simp add: renderable_def one_texture_def)
  from RenderScene_keeps_registries [of "\<lambda>n. zero_material" one_texture] r obtain s' where
    s': "RenderScene (\<lambda>n. zero_material) one_texture = Some s'" by blast
  with RenderScene_keeps_registries [of "\<lambda>n. zero_material" one_texture] have
    "m_textureIDs s' = m_textureIDs one_texture" "m_loadedTextures s' = m_loadedTextures one_texture"
    "m_objectMaterials s' = m_objectMaterials one_texture" by blast+
  then have "m_loadedTextures s' = 1 \<and> m_objectMaterials s' = [] \<and>
      registered_tags s' = [''metal_table'']"
    by (simp add: registered_tags_def one_texture_def)
  with r s' show ?thesis by blast
qed

subsection \<open>Registrations within and beyond the capacity\<close>

lemma register_all_total:
  "0 \<le> m_loadedTextures s \<Longrightarrow> m_loadedTextures s + int (length regs) \<le> 16 \<Longrightarrow>
   \<forall>r \<in> set regs. decodable E (fst r) \<Longrightarrow> \<exists>s'. register_all E regs s = Some s'"
proof (induction regs arbitrary: s)
  case Nil
  then show ?case by simp
next
  case (Cons r rest)
  obtain filename tg where r: "r = (filename, tg)" by (cases r) auto
  from Cons.prems have "m_loadedTextures s < 16" by simp
  from CreateGLTexture_defined [OF Cons.prems(1) this] obtain b s1 where
    c: "CreateGLTexture E filename tg s = Some (b, s1)" by fastforce
  from CreateGLTexture_tags [OF c Cons.prems(1)] Cons.prems(3) r have
    t: "b = True" "m_loadedTextures s1 = m_loadedTextures s + 1" by simp_all
  have "0 \<le> m_loadedTextures s1" "m_loadedTextures s1 + int (length rest) \<le> 16"
    "\<forall>r \<in> set rest. decodable E (fst r)"
    using t(2) Cons.prems by simp_all
  from Cons.IH [OF this] obtain s' where "register_all E rest s1 = Some s'" by blast
  with c t(1) r show ?case by simp
qed

lemma register_all_append:
  "register_all E (xs @ ys) s = Option.bind (register_all E xs s) (register_all E ys)"
proof (induction xs arbitrary: s)
  case Nil
  then show ?case by simp
next
  case (Cons r xs)
  obtain filename tg where r: "r = (filename, tg)" by (cases r) auto
  show ?case using Cons.IH
    by (simp add: r split: option.splits prod.splits bool.splits)
qed

lemma CreateGLTexture_full:
  assumes "decodable E filename" and "16 \<le> m_loadedTextures s"
  shows "CreateGLTexture E filename tg s = None"
proof -
  from assms have
    "map_option (\<lambda>(b, r). (b, registry_view r)) (CreateGLTexture E filename tg s) = None"
    unfolding CreateGLTexture_view
    by (auto simp: decodable_def split: option.splits)
  then show ?thesis by simp
qed

lemma decodable_all_decode [simp]: "decodable all_decode f"
  by (simp add: decodable_def all_decode_def)

text \<open>Claim C2, amended. Into an empty registry (\<^verbatim>\<open>m_loadedTextures\<close> is 0), every run of
  at most 16 registrations of decodable images (3 or 4 channels) with distinct tags
  succeeds call by call, and afterwards the registry holds exactly these tags, the \<open>k\<close>-th
  registered tag in slot \<open>k\<close> (counting from 0), so the slots are distinct, lie in
  \<open>[0, 16)\<close> and increase in registration order, and \<^verbatim>\<open>FindTextureSlot\<close> of the \<open>k\<close>-th tag
  returns \<open>k\<close>.\<close>

theorem registration_slots:
  assumes "m_loadedTextures s = 0" and "distinct (map snd regs)" and "length regs \<le> 16"
    and "\<forall>r \<in> set regs. decodable E (fst r)"
  shows "\<exists>s'. register_all E regs s = Some s' \<and>
           m_loadedTextures s' = int (length regs) \<and>
           registered_tags s' = map snd regs \<and>
           (\<forall>k < length regs.
              FindTextureSlot s' (snd (regs ! k)) = Some (int k) \<and> 0 \<le> int k \<and> int k < 16)"
proof -
  have "0 \<le> m_loadedTextures s" "m_loadedTextures s + int (length regs) \<le> 16"
    using assms(1,3) by simp_all
  from register_all_total [OF this assms(4)] obtain s' where
    run: "register_all E regs s = Some s'" by blast
  from register_all_slots [OF assms(1,2) run] run show ?thesis by blast
qed

theorem registration_slots_witness:
  "m_loadedTextures scene0 = 0 \<and>
   distinct (map snd [(''fileA.png'', ''a''), (''fileB.png'', ''b'')]) \<and>
   length [(''fileA.png'', ''a''), (''fileB.png'', ''b'')] \<le> 16 \<and>
   decodable two_files ''fileA.png'' \<and> decodable two_files ''fileB.png'' \<and>
   (\<exists>s'. register_all two_files [(''fileA.png'', ''a''), (''fileB.png'', ''b'')] scene0 = Some s' \<and>
      FindTextureSlot s' ''a'' = Some 0 \<and> FindTextureSlot s' ''b'' = Some 1)"
proof -
  let ?regs = "[(''fileA.png'', ''a''), (''fileB.png'', ''b'')]"
  have a: "m_loadedTextures scene0 = 0" by simp
  have b: "distinct (map snd ?regs)" by simp
  have c: "length ?regs \<le> 16" by simp
  have d: "\<forall>r \<in> set ?regs. decodable two_files (fst r)"
    by (simp add: decodable_def two_files_def)
  from registration_slots [OF a b c d] obtain s' where
    run: "register_all two_files ?regs scene0 = Some s'" and
    all: "\<forall>k<length ?regs. FindTextureSlot s' (snd (?regs ! k)) = Some (int k) \<and>
            0 \<le> int k \<and> int k < 16"
    by blast
  have "(0::nat) < length ?regs" "(1::nat) < length ?regs" by simp_all
  with all have "FindTextureSlot s' (snd (?regs ! 0)) = Some (int 0)"
    and "FindTextureSlot s' (snd (?regs ! 1)) = Some (int 1)"
    by blast+
  then have "FindTextureSlot s' ''a'' = Some 0" "FindTextureSlot s' ''b'' = Some 1" by simp_all
  moreover from d have "decodable two_files ''fileA.png''" "decodable two_files ''fileB.png''"
    by simp_all
  ultimately show ?thesis using a b c run by blast
qed

lemma sixteen_registered:
  "\<exists>s'. register_all all_decode (take 16 seventeen) scene0 = Some s' \<and> m_loadedTextures s' = 16"
proof -
  have "0 \<le> m_loadedTextures scene0"
    "m_loadedTextures scene0 + int (length (take 16 seventeen)) \<le> 16"
    "\<forall>r \<in> set (take 16 seventeen). decodable all_decode (fst r)"
    by (simp_all add: seventeen_def)
  from register_all_total [OF this] obtain s' where
    run: "register_all all_decode (take 16 seventeen) scene0 = Some s'" by blast
  from register_all_view [OF run] have "m_loadedTextures s' = 16"
    by (simp add: seventeen_def)
  with run show ?thesis by blast
qed

lemma late_start_slot:
  "FindTextureSlot (the (register_all all_decode [(''a.jpg'', ''a'')] late_start)) ''a'' = Some 3"
  by (simp add: CreateGLTexture_def CreateGLTexture_register_def stbi_load_def glGenTextures_def
      all_decode_def Let_def late_start_def SceneManager_ctor_def zeroed_storage_def emit_def
      FindTextureSlot_def FindTextureSlot_loop.simps texture_at_def)

text \<open>Claim C2 as stated speaks of every sequence of successful registrations and of
  slots counted from 0. \<^verbatim>\<open>CreateGLTexture\<close> has no capacity test: of seventeen decodable
  images with distinct tags registered into an empty registry, sixteen fill the slots 0
  to 15, and the seventeenth call stores into \<^verbatim>\<open>m_textureIDs[16]\<close>, one past the array, so
  it is given no slot in \<open>[0, 16)\<close> (the store is undefined behaviour, the result \<open>None\<close>).
  And the count starts from whatever \<^verbatim>\<open>m_loadedTextures\<close> held: on \<open>late_start\<close> the first
  registered tag is found in slot 3, not 0.\<close>

theorem registration_seventeenth:
  "length seventeen = 17 \<and> distinct (map snd seventeen) \<and>
   decodable all_decode (fst (seventeen ! 16)) \<and>
   m_loadedTextures scene0 = 0 \<and>
   register_all all_decode (take 16 seventeen) scene0 \<noteq> None \<and>
   m_loadedTextures (the (register_all all_decode (take 16 seventeen) scene0)) = 16 \<and>
   CreateGLTexture all_decode (fst (seventeen ! 16)) (snd (seventeen ! 16))
     (the (register_all all_decode (take 16 seventeen) scene0)) = None \<and>
   register_all all_decode seventeen scene0 = None \<and>
   m_loadedTextures late_start = 3 \<and>
   FindTextureSlot (the (register_all all_decode [(''a.jpg'', ''a'')] late_start)) ''a'' = Some 3"
proof -
  from sixteen_registered obtain s' where
    run: "register_all all_decode (take 16 seventeen) scene0 = Some s'" and
    n: "m_loadedTextures s' = 16" by blast
  have full: "\<And>f t. CreateGLTexture all_decode f t s' = None"
    by (rule CreateGLTexture_full) (simp_all add: n)
  have split: "seventeen = take 16 seventeen @ [(''q.jpg'', ''q'')]"
    by (simp add: seventeen_def)
  have "register_all all_decode (take 16 seventeen @ [(''q.jpg'', ''q'')]) scene0 = None"
    unfolding register_all_append run by (simp add: full)
  with split have over: "register_all all_decode seventeen scene0 = None" by simp
  have basics: "length seventeen = 17" "distinct (map snd seventeen)"
    by (simp_all add: seventeen_def)
  have ls: "m_loadedTextures late_start = 3"
    by (simp add: late_start_def SceneManager_ctor_def zeroed_storage_def)
  from basics run n full over ls late_start_slot show ?thesis by simp
qed

end
